theory Spec2Isabelle
  imports Main
begin

section \<open>The Go library functions the driver calls\<close>

text \<open>
  Go strings are byte sequences; they are modelled as \<^typ>\<open>string\<close> (a list of
  \<^typ>\<open>char\<close>, one per byte). \<open>fmt.Sprintf\<close> with \<open>%s\<close> verbs only is
  concatenation. Logging (\<open>log.Debugf\<close>, \<open>log.Printf\<close>, the event log entries)
  has no effect on the values computed and is left out.
\<close>

subsection \<open>Package strings\<close>

text \<open>\<open>HasPrefix(s, prefix)\<close> is \<open>len(s) >= len(prefix) && s[:len(prefix)] == prefix\<close>.\<close>

definition HasPrefix :: "string \<Rightarrow> string \<Rightarrow> bool" where
  "HasPrefix s p = (length p \<le> length s \<and> take (length p) s = p)"

text \<open>\<open>HasSuffix(s, suffix)\<close> is
  \<open>len(s) >= len(suffix) && s[len(s)-len(suffix):] == suffix\<close>.\<close>

definition HasSuffix :: "string \<Rightarrow> string \<Rightarrow> bool" where
  "HasSuffix s suf = (length suf \<le> length s \<and> drop (length s - length suf) s = suf)"

text \<open>\<open>Index(s, substr)\<close>: the position of the first occurrence of \<open>substr\<close> in
  \<open>s\<close>; Go's \<open>-1\<close> is \<open>None\<close>.\<close>

fun Index :: "string \<Rightarrow> string \<Rightarrow> nat option" where
  "Index [] sep = (if sep = [] then Some 0 else None)"
| "Index (c # t) sep =
     (if HasPrefix (c # t) sep then Some 0 else map_option Suc (Index t sep))"

text \<open>\<open>Contains(s, substr)\<close> is \<open>Index(s, substr) >= 0\<close>.\<close>

definition Contains :: "string \<Rightarrow> string \<Rightarrow> bool" where
  "Contains s sep = (Index s sep \<noteq> None)"

text \<open>\<open>Split(s, sep)\<close>: the pieces of \<open>s\<close> between the successive, non-overlapping
  occurrences of \<open>sep\<close>, found from the left; \<open>[s]\<close> when \<open>sep\<close> does not occur.
  With an empty separator Go splits after each character.\<close>

function Split :: "string \<Rightarrow> string \<Rightarrow> string list" where
  "Split s sep =
     (if sep = [] then map (\<lambda>c. [c]) s
      else (case Index s sep of
              None \<Rightarrow> [s]
            | Some m \<Rightarrow> take m s # Split (drop (m + length sep) s) sep))"
  by pat_completeness auto
termination
proof (relation "measure (\<lambda>(s, sep). length s)")
  show "wf (measure (\<lambda>(s, sep). length s))" by simp
next
  fix s sep :: string and m :: nat
  assume sep: "sep \<noteq> []" and found: "Index s sep = Some m"
  have "s \<noteq> []"
    using sep found by (cases s) auto
  with sep show "((drop (m + length sep) s, sep), (s, sep)) \<in> measure (\<lambda>(s, sep). length s)"
    by (cases sep) auto
qed

declare Split.simps [simp del]

text \<open>\<open>strings.Join(elems, sep)\<close>.\<close>

fun strings_Join :: "string list \<Rightarrow> string \<Rightarrow> string" where
  "strings_Join [] sep = []"
| "strings_Join [a] sep = a"
| "strings_Join (a # b # rest) sep = a @ sep @ strings_Join (b # rest) sep"

text \<open>\<open>Trim(s, cutset)\<close> returns \<open>s\<close> itself when \<open>s\<close> or \<open>cutset\<close> is empty, and
  otherwise \<open>s\<close> without its leading and trailing characters that are in \<open>cutset\<close>
  (the cut sets used here, \<open>"\n"\<close> and \<open>""\<close>, are ASCII, where Go works on bytes).\<close>

definition Trim :: "string \<Rightarrow> string \<Rightarrow> string" where
  "Trim s cutset =
     (if s = [] \<or> cutset = [] then s
      else rev (dropWhile (\<lambda>c. c \<in> set cutset) (rev (dropWhile (\<lambda>c. c \<in> set cutset) s))))"

text \<open>The white space of \<open>unicode.IsSpace\<close> among the ASCII bytes.\<close>

definition isSpace :: "char \<Rightarrow> bool" where
  "isSpace c = (c \<in> {CHR 0x09, CHR 0x0A, CHR 0x0B, CHR 0x0C, CHR 0x0D, CHR '' ''})"

text \<open>\<open>TrimSpace(s)\<close>: \<open>s\<close> without its leading and trailing white space.\<close>

definition TrimSpace :: "string \<Rightarrow> string" where
  "TrimSpace s = rev (dropWhile isSpace (rev (dropWhile isSpace s)))"

text \<open>\<open>Fields(s)\<close>: the white space delimited tokens of \<open>s\<close>; \<open>cur\<close> is the token being
  read, reversed.\<close>

fun Fields_from :: "string \<Rightarrow> string \<Rightarrow> string list" where
  "Fields_from cur [] = (if cur = [] then [] else [rev cur])"
| "Fields_from cur (c # cs) =
     (if isSpace c then (if cur = [] then Fields_from [] cs else rev cur # Fields_from [] cs)
      else Fields_from (c # cur) cs)"

definition Fields :: "string \<Rightarrow> string list" where
  "Fields s = Fields_from [] s"

text \<open>\<open>ToLower(s)\<close>: on a string of ASCII bytes only, each of \<open>'A'..'Z'\<close> is moved by
  \<open>'a' - 'A'\<close>; a string with a byte \<open>\<ge> 0x80\<close> goes through
  \<open>Map(unicode.ToLower, s)\<close>, whose Unicode tables are a parameter here.\<close>

definition asciiLower :: "char \<Rightarrow> char" where
  "asciiLower c =
     (let n = (of_char c :: nat) in if 65 \<le> n \<and> n \<le> 90 then char_of (n + 32) else c)"

definition ToLower :: "(string \<Rightarrow> string) \<Rightarrow> string \<Rightarrow> string" where
  "ToLower unicodeLower s =
     (if list_all (\<lambda>c. (of_char c :: nat) < 128) s then map asciiLower s else unicodeLower s)"

subsection \<open>Package path\<close>

text \<open>The inner loop of \<open>Clean\<close> on a \<open>..\<close> element that can backtrack:
  \<open>out.w--; for out.w > dotdot && out.index(out.w) != '/' { out.w-- }\<close>.
  The buffer \<open>out\<close> is the string written so far, \<open>out.w\<close> its length.\<close>

function Clean_backtrack :: "nat \<Rightarrow> string \<Rightarrow> string" where
  "Clean_backtrack dotdot out =
     (let w = length out - 1 in
      if dotdot < w \<and> out ! w \<noteq> CHR ''/'' then Clean_backtrack dotdot (take w out)
      else take w out)"
  by pat_completeness auto
termination
  by (relation "measure (\<lambda>(dotdot, out). length out)") auto

declare Clean_backtrack.simps [simp del]

text \<open>The main loop of \<open>Clean\<close>: \<open>c # rest\<close> is \<open>path[r:]\<close>, the unread input. The
  third test reads \<open>path[r+1]\<close> only after the second has failed on a dot, so \<open>rest\<close>
  is not empty there.\<close>

function Clean_loop :: "bool \<Rightarrow> string \<Rightarrow> nat \<Rightarrow> string \<Rightarrow> string" where
  "Clean_loop rooted out dotdot [] = out"
| "Clean_loop rooted out dotdot (c # rest) =
     (if c = CHR ''/'' then Clean_loop rooted out dotdot rest
      else if c = CHR ''.'' \<and> (rest = [] \<or> hd rest = CHR ''/'') then
        Clean_loop rooted out dotdot rest
      else if c = CHR ''.'' \<and> hd rest = CHR ''.'' \<and> (tl rest = [] \<or> hd (tl rest) = CHR ''/'') then
        (if dotdot < length out then
           Clean_loop rooted (Clean_backtrack dotdot out) dotdot (tl rest)
         else if \<not> rooted then
           (let out' = (if 0 < length out then out @ ''/'' else out) @ ''..'' in
            Clean_loop rooted out' (length out') (tl rest))
         else Clean_loop rooted out dotdot (tl rest))
      else
        (let out' = (if rooted \<and> length out \<noteq> 1 \<or> \<not> rooted \<and> length out \<noteq> 0
                     then out @ ''/'' else out)
         in Clean_loop rooted (out' @ takeWhile (\<lambda>x. x \<noteq> CHR ''/'') (c # rest)) dotdot
              (dropWhile (\<lambda>x. x \<noteq> CHR ''/'') (c # rest))))"
  by pat_completeness auto
termination
  by (relation "measure (\<lambda>(rooted, out, dotdot, rest). length rest)")
     (auto simp: less_Suc_eq_le length_dropWhile_le)

declare Clean_loop.simps [simp del]

text \<open>\<open>path.Clean(path)\<close>.\<close>

definition Clean :: "string \<Rightarrow> string" where
  "Clean p =
     (if p = [] then ''.''
      else (let rooted = (hd p = CHR ''/'');
                out = (if rooted then Clean_loop True ''/'' 1 (tl p)
                       else Clean_loop False [] 0 p)
            in if out = [] then ''.'' else out))"

text \<open>\<open>path.Join(elem...)\<close>: the elements from the first non-empty one on, joined
  with slashes by \<open>strings.Join\<close> and cleaned; the empty string when every element is
  empty.\<close>

definition path_Join :: "string list \<Rightarrow> string" where
  "path_Join elem =
     (case dropWhile (\<lambda>e. e = []) elem of
        [] \<Rightarrow> []
      | es \<Rightarrow> Clean (strings_Join es ''/''))"

section \<open>The data of one execution\<close>

text \<open>\<open>prov.Operation\<close>, with the fields this driver reads.\<close>

record Operation =
  Name :: string
  ImplementedInNodeTemplate :: string

text \<open>\<open>operations.EnvInput\<close>: the driver reads \<open>input.Name\<close> and \<open>input.Value\<close>.\<close>

record EnvInput =
  inputName :: string
  inputValue :: string

text \<open>\<open>jobInfo\<close>. The map \<open>inputs\<close> is the list of its entries in the order in which
  the \<open>range\<close> loops of this run visit them (Go fixes no order); \<open>time.Duration\<close> is an
  integer number of nanoseconds.\<close>

record jobInfo =
  batchMode :: bool
  ID :: string
  monitoringTimeInterval :: int
  inputs :: "(string \<times> string) list"
  outputs :: "string list"
  execArgs :: "string list"
  opts :: "string list"

record singularityInfo =
  command :: string
  imageName :: string
  imageURI :: string
  exec :: string

text \<open>The calls that leave the process: \<open>e.client.RunCommand\<close> (the remote command
  transport) and the two lookups in the deployment store \<open>e.kv\<close>.\<close>

datatype call =
    RunCommand_call string
  | GetOperationImplementationRepository_call
  | GetRepositoryURLFromName_call string

text \<open>\<open>executionSingularity\<close> with the fields of the embedded \<open>executionCommon\<close> that
  this file uses. \<open>jobInfo\<close> and \<open>singularityInfo\<close> are pointers in Go, allocated by
  \<open>buildJobInfo\<close> and \<open>buildSingularityInfo\<close> before anything here dereferences them; the
  model holds the records by value. \<open>calls\<close> is not a Go field: it records, in order,
  the calls made so far through \<open>e.client\<close> and \<open>e.kv\<close>.\<close>

record executionSingularity =
  operation :: Operation
  deploymentID :: string
  NodeType :: string
  EnvInputs :: "EnvInput list"
  Primary :: string
  OperationRemoteBaseDir :: string
  OperationRemoteExecDir :: string
  jobInfo :: jobInfo
  singularityInfo :: singularityInfo
  calls :: "call list"

text \<open>\<open>url.URL\<close>: only \<open>Host\<close> is read.\<close>

record URL =
  Host :: string

text \<open>\<open>prov.Action\<close> as the specification describes the monitoring handle: deployment
  identifier, job identifier, poll interval.\<close>

record Action =
  actionDeploymentID :: string
  actionJobID :: string
  actionInterval :: int

text \<open>
  The errors. Go's errors here are messages; the constructors name them after the error
  taxonomy of the specification and keep the data the message is built from.
  \<^item> \<open>UnsupportedOperation\<close>: \<open>errors.Errorf("Unsupported operation %q", e.operation.Name)\<close>;
  \<^item> \<open>MissingImageName\<close>: \<open>errors.New("The image name is mandatory ...")\<close>;
  \<^item> \<open>UnresolvableImage\<close>: \<open>errors.Errorf("Unable to resolve container image URI from image name:%q", ...)\<close>;
  \<^item> \<open>IndexOutOfRange\<close>: the run-time panic of \<open>tabs[1]\<close> on a slice of length one;
  \<^item> \<open>JobInfoFailure\<close>, \<open>RepositoryLookupFailure\<close>, \<open>InvalidRepositoryURL\<close>,
    \<open>CommandExecutionFailure\<close>, \<open>JobIDParseFailure\<close>, \<open>JobIDLookupFailure\<close>: the error
    that \<open>buildJobInfo\<close>, a deployment store lookup, \<open>url.Parse\<close>, \<open>RunCommand\<close>,
    \<open>parseJobIDFromBatchOutput\<close> and \<open>retrieveJobID\<close> returned, with its message;
  \<^item> \<open>Wrap err msg\<close>: \<open>errors.Wrap(err, msg)\<close>.
\<close>

datatype error =
    UnsupportedOperation string
  | MissingImageName
  | UnresolvableImage string
  | IndexOutOfRange
  | JobInfoFailure string
  | RepositoryLookupFailure string
  | InvalidRepositoryURL string
  | CommandExecutionFailure string
  | JobIDParseFailure string
  | JobIDLookupFailure string
  | Wrap error string

text \<open>\<open>errors.Cause(err)\<close>: the innermost wrapped error.\<close>

fun Cause :: "error \<Rightarrow> error" where
  "Cause (Wrap err msg) = Cause err"
| "Cause err = err"

text \<open>
  What the driver uses and this file does not define: constants and functions of other
  packages of the repository and of the Go library, and the answers of the remote
  session and of the deployment store. A function that returns \<open>(value, error)\<close> in Go
  returns \<open>Inl message\<close> for a non-nil error here; \<open>RunCommand\<close> returns its output
  together with the error, if any.
  \<^item> \<open>unicodeToLower\<close>: \<open>strings.Map(unicode.ToLower, s)\<close>;
  \<^item> \<open>jobInfoOf\<close>: the job information \<open>buildJobInfo\<close> computes for the execution;
  \<^item> \<open>fillJobCommandOpts\<close>, \<open>parseOutputConfigFromOpts\<close>: the methods of these names;
  \<^item> \<open>UniqueTimestampedName\<close>: \<open>stringutil.UniqueTimestampedName(prefix, suffix)\<close> at
    the time of the call;
  \<^item> \<open>RunCommand\<close>: \<open>e.client.RunCommand(cmd)\<close>;
  \<^item> \<open>GetOperationImplementationRepository\<close>, \<open>GetRepositoryURLFromName\<close>,
    \<open>DockerHubURL\<close>, \<open>SingularityHubURL\<close>: package \<open>deployments\<close>, on \<open>e.kv\<close>;
  \<^item> \<open>url_Parse\<close>: \<open>url.Parse(rawurl)\<close>;
  \<^item> \<open>lookupJobID\<close>: what the lookup of the job identifier for a deployment and node
    template does: the commands it sends through the transport, in order (possibly
    none), and the identifier it finds or its error.
\<close>

record collaborators =
  unicodeToLower :: "string \<Rightarrow> string"
  jobInfoOf :: "executionSingularity \<Rightarrow> string + jobInfo"
  fillJobCommandOpts :: "executionSingularity \<Rightarrow> string"
  parseOutputConfigFromOpts :: "string list \<Rightarrow> string list"
  UniqueTimestampedName :: "string \<Rightarrow> string \<Rightarrow> string"
  RunCommand :: "string \<Rightarrow> string \<times> string option"
  GetOperationImplementationRepository ::
    "string \<Rightarrow> string \<Rightarrow> string \<Rightarrow> string \<Rightarrow> string + string"
  GetRepositoryURLFromName :: "string \<Rightarrow> string \<Rightarrow> string + string"
  DockerHubURL :: string
  SingularityHubURL :: string
  url_Parse :: "string \<Rightarrow> string + URL"
  lookupJobID :: "string \<Rightarrow> string \<Rightarrow> string list \<times> (string + string)"

section \<open>The driver\<close>

subsection \<open>Functions of the repository that are not in this file\<close>

text \<open>Modelled from the spec: \<open>buildJobInfo\<close> is not in the sources. The generic job and
  environment builder supplies the job information as already populated context; the
  method stores it in \<open>e.jobInfo\<close> or returns the builder's error.\<close>

definition buildJobInfo ::
  "collaborators \<Rightarrow> executionSingularity \<Rightarrow> executionSingularity \<times> error option" where
  "buildJobInfo w e =
     (case jobInfoOf w e of
        Inl msg \<Rightarrow> (e, Some (JobInfoFailure msg))
      | Inr ji \<Rightarrow> (e\<lparr>jobInfo := ji\<rparr>, None))"

text \<open>Modelled from the spec: \<open>parseJobIDFromBatchOutput\<close> is not in the sources. The
  scheduler's acknowledgment is expected to contain the job identifier as its final
  whitespace-delimited token (\<open>"Submitted batch job <ID>"\<close> or equivalent); text without
  such a token fails with \<open>JobIDParseFailure\<close>. As in Go, the function returns a string
  together with the error.\<close>

definition parseJobIDFromBatchOutput :: "string \<Rightarrow> string \<times> error option" where
  "parseJobIDFromBatchOutput str =
     (case Fields str of
        [] \<Rightarrow> ([], Some (JobIDParseFailure str))
      | ts \<Rightarrow> (last ts, None))"

text \<open>Modelled from the spec: \<open>retrieveJobID\<close> is not in the sources. In interactive
  mode the job identifier is not available synchronously and is obtained by a separate
  lookup keyed by deployment and node identity. How the lookup is done is not
  specified: the commands it sends through the transport, if any, are part of the
  collaborator's answer and are recorded as calls.\<close>

definition retrieveJobID ::
  "collaborators \<Rightarrow> executionSingularity \<Rightarrow> executionSingularity \<times> error option" where
  "retrieveJobID w e =
     (case lookupJobID w (deploymentID e) (ImplementedInNodeTemplate (operation e)) of
        (cmds, found) \<Rightarrow>
          (let e1 = e\<lparr>calls := calls e @ map RunCommand_call cmds\<rparr> in
           case found of
             Inl msg \<Rightarrow> (e1, Some (JobIDLookupFailure msg))
           | Inr jid \<Rightarrow> (e1\<lparr>jobInfo := (jobInfo e1)\<lparr>ID := jid\<rparr>\<rparr>, None)))"

text \<open>Modelled from the spec: \<open>buildJobMonitoringAction\<close> is not in the sources. The
  monitoring handle packages the deployment identifier, the job identifier and the
  polling interval; the call in \<open>executeAsync\<close> has no error result.\<close>

definition buildJobMonitoringAction :: "executionSingularity \<Rightarrow> Action" where
  "buildJobMonitoringAction e =
     \<lparr>actionDeploymentID = deploymentID e,
      actionJobID = ID (jobInfo e),
      actionInterval = monitoringTimeInterval (jobInfo e)\<rparr>"

subsection \<open>\<open>execution_singularity.go\<close>\<close>

text \<open>Every method takes the execution \<open>e\<close> and returns it as the method leaves it,
  with the error (\<open>None\<close> is \<open>nil\<close>).\<close>

text \<open>\<open>e.client.RunCommand(cmd)\<close> and the two lookups on \<open>e.kv\<close>, each recorded.\<close>

definition record_call :: "call \<Rightarrow> executionSingularity \<Rightarrow> executionSingularity" where
  "record_call c e = e\<lparr>calls := calls e @ [c]\<rparr>"

text \<open>\<open>e.singularityInfo.imageURI = uri\<close>.\<close>

definition set_imageURI :: "string \<Rightarrow> executionSingularity \<Rightarrow> executionSingularity" where
  "set_imageURI uri e = e\<lparr>singularityInfo := (singularityInfo e)\<lparr>imageURI := uri\<rparr>\<rparr>"

definition buildImageURI ::
  "collaborators \<Rightarrow> string \<Rightarrow> executionSingularity \<Rightarrow> executionSingularity \<times> error option" where
  "buildImageURI w prefix e =
     (let e1 = record_call GetOperationImplementationRepository_call e in
      case GetOperationImplementationRepository w (deploymentID e)
             (ImplementedInNodeTemplate (operation e)) (NodeType e) (Name (operation e)) of
        Inl msg \<Rightarrow> (e1, Some (RepositoryLookupFailure msg))
      | Inr repoName \<Rightarrow>
          if repoName = [] then (set_imageURI (imageName (singularityInfo e1)) e1, None)
          else
            (let e2 = record_call (GetRepositoryURLFromName_call repoName) e1 in
             case GetRepositoryURLFromName w (deploymentID e) repoName of
               Inl msg \<Rightarrow> (e2, Some (RepositoryLookupFailure msg))
             | Inr repoURL \<Rightarrow>
                 if repoURL = DockerHubURL w \<or> repoURL = SingularityHubURL w then
                   (set_imageURI (imageName (singularityInfo e2)) e2, None)
                 else if repoURL \<noteq> [] then
                   (case url_Parse w repoURL of
                      Inl msg \<Rightarrow> (e2, Some (InvalidRepositoryURL msg))
                    | Inr urlStruct \<Rightarrow>
                        (let tabs = Split (imageName (singularityInfo e2)) prefix in
                         if length tabs \<le> 1 then (e2, Some IndexOutOfRange)
                         else
                           (set_imageURI (prefix @ path_Join [Host urlStruct, tabs ! 1]) e2,
                            None)))
                 else (set_imageURI (imageName (singularityInfo e2)) e2, None)))"

definition resolveContainerImage ::
  "collaborators \<Rightarrow> executionSingularity \<Rightarrow> executionSingularity \<times> error option" where
  "resolveContainerImage w e =
     (if HasPrefix (imageName (singularityInfo e)) ''docker://'' then
        buildImageURI w ''docker://'' e
      else if HasPrefix (imageName (singularityInfo e)) ''shub://'' then
        buildImageURI w ''shub://'' e
      else if HasSuffix (imageName (singularityInfo e)) ''.simg''
              \<or> HasSuffix (imageName (singularityInfo e)) ''.img'' then
        (set_imageURI (imageName (singularityInfo e)) e, None)
      else (e, Some (UnresolvableImage (imageName (singularityInfo e)))))"

text \<open>The loop of \<open>buildSingularityInfo\<close> over \<open>e.EnvInputs\<close>.\<close>

fun scanEnvInputs :: "singularityInfo \<Rightarrow> EnvInput list \<Rightarrow> singularityInfo" where
  "scanEnvInputs si [] = si"
| "scanEnvInputs si (input # rest) =
     scanEnvInputs
       (if inputName input = ''exec_command'' \<and> inputValue input \<noteq> []
        then si\<lparr>exec := inputValue input, command := ''exec''\<rparr> else si)
       rest"

definition buildSingularityInfo ::
  "collaborators \<Rightarrow> executionSingularity \<Rightarrow> executionSingularity \<times> error option" where
  "buildSingularityInfo w e =
     (let si0 = \<lparr>command = [], imageName = [], imageURI = [], exec = []\<rparr>;
          si1 = scanEnvInputs si0 (EnvInputs e);
          si2 = si1\<lparr>imageName := Primary e\<rparr>
      in if imageName si2 = [] then (e, Some MissingImageName)
         else
           (let si3 = (if command si2 = [] then si2\<lparr>command := ''run''\<rparr> else si2)
            in resolveContainerImage w (e\<lparr>singularityInfo := si3\<rparr>)))"

text \<open>The export statements both modes build from \<open>e.jobInfo.inputs\<close>.\<close>

fun exportsOf :: "(string \<times> string) list \<Rightarrow> string" where
  "exportsOf [] = []"
| "exportsOf ((k, v) # rest) = (''export '' @ k @ ''='' @ v @ '';'') @ exportsOf rest"

text \<open>The command string of \<open>runBatchMode\<close>; \<open>CHR 0x22\<close> is the double quote.\<close>

definition batchCommand :: "executionSingularity \<Rightarrow> string \<Rightarrow> string" where
  "batchCommand e cmdOpts =
     (let innerCmd = exportsOf (inputs (jobInfo e)) @ ''srun '' @ cmdOpts @ '' singularity ''
                       @ command (singularityInfo e) @ '' '' @ imageURI (singularityInfo e)
                       @ '' '' @ exec (singularityInfo e)
      in ''mkdir -p '' @ OperationRemoteBaseDir e @ '';cd '' @ OperationRemoteBaseDir e
           @ '';sbatch --wrap='' @ [CHR 0x22] @ innerCmd @ [CHR 0x22])"

definition runBatchMode ::
  "collaborators \<Rightarrow> string \<Rightarrow> executionSingularity \<Rightarrow> executionSingularity \<times> error option" where
  "runBatchMode w cmdOpts e =
     (let cmd = batchCommand e cmdOpts;
          e1 = record_call (RunCommand_call cmd) e
      in case RunCommand w cmd of
           (output, Some err) \<Rightarrow> (e1, Some (Wrap (CommandExecutionFailure err) output))
         | (output, None) \<Rightarrow>
             (case parseJobIDFromBatchOutput (Trim output [CHR 0x0A]) of
                (jid, perr) \<Rightarrow> (e1\<lparr>jobInfo := (jobInfo e1)\<lparr>ID := jid\<rparr>\<rparr>, perr)))"

text \<open>The command string of \<open>runInteractiveMode\<close>, before \<open>strings.Trim(cmd, "")\<close>.\<close>

definition interactiveCommand :: "executionSingularity \<Rightarrow> string \<Rightarrow> string \<Rightarrow> string" where
  "interactiveCommand e cmdOpts redirectFile =
     exportsOf (inputs (jobInfo e)) @ ''srun '' @ cmdOpts @ '' singularity ''
       @ command (singularityInfo e) @ '' '' @ strings_Join (execArgs (jobInfo e)) '' ''
       @ '' '' @ imageURI (singularityInfo e) @ '' '' @ exec (singularityInfo e)
       @ '' > '' @ redirectFile @ '' &''"

definition runInteractiveMode ::
  "collaborators \<Rightarrow> string \<Rightarrow> executionSingularity \<Rightarrow> executionSingularity \<times> error option" where
  "runInteractiveMode w cmdOpts e =
     (let redirectFile = UniqueTimestampedName w ''yorc_'' [];
          e1 = e\<lparr>jobInfo := (jobInfo e)\<lparr>outputs := [redirectFile]\<rparr>\<rparr>;
          cmd = Trim (interactiveCommand e1 cmdOpts redirectFile) [];
          e2 = record_call (RunCommand_call cmd) e1
      in case RunCommand w cmd of
           (output, Some err) \<Rightarrow> (e2, Some (Wrap (CommandExecutionFailure err) output))
         | (output, None) \<Rightarrow> (e2, None))"

definition searchForBatchOutputs ::
  "collaborators \<Rightarrow> executionSingularity \<Rightarrow> executionSingularity \<times> error option" where
  "searchForBatchOutputs w e =
     (e\<lparr>jobInfo := (jobInfo e)\<lparr>outputs := parseOutputConfigFromOpts w (opts (jobInfo e))\<rparr>\<rparr>,
      None)"

definition runJobCommand ::
  "collaborators \<Rightarrow> executionSingularity \<Rightarrow> executionSingularity \<times> error option" where
  "runJobCommand w e =
     (let cmdOpts = fillJobCommandOpts w e;
          e1 = e\<lparr>OperationRemoteExecDir := OperationRemoteBaseDir e\<rparr>
      in if batchMode (jobInfo e1) then
           (case searchForBatchOutputs w e1 of
              (e2, Some err) \<Rightarrow> (e2, Some err)
            | (e2, None) \<Rightarrow> runBatchMode w cmdOpts e2)
         else
           (case runInteractiveMode w cmdOpts e1 of
              (e2, Some err) \<Rightarrow> (e2, Some err)
            | (e2, None) \<Rightarrow> retrieveJobID w e2))"

text \<open>\<open>executeAsync\<close> returns \<open>(nil, 0, err)\<close>, here \<open>Inl err\<close>, or the monitoring action
  with the polling interval.\<close>

definition executeAsync ::
  "collaborators \<Rightarrow> executionSingularity
     \<Rightarrow> executionSingularity \<times> (error + Action \<times> int)" where
  "executeAsync w e =
     (if ToLower (unicodeToLower w) (Name (operation e))
           = ''tosca.interfaces.node.lifecycle.runnable.run'' then
        (case buildJobInfo w e of
           (e1, Some err) \<Rightarrow> (e1, Inl (Wrap err ''failed to build job information''))
         | (e1, None) \<Rightarrow>
             (case buildSingularityInfo w e1 of
                (e2, Some err) \<Rightarrow>
                  (e2, Inl (Wrap err ''failed to build singularity information''))
              | (e2, None) \<Rightarrow>
                  (case runJobCommand w e2 of
                     (e3, Some err) \<Rightarrow> (e3, Inl (Wrap err ''failed to run command''))
                   | (e3, None) \<Rightarrow>
                       (e3, Inr (buildJobMonitoringAction e3,
                                 monitoringTimeInterval (jobInfo e3))))))
      else (e, Inl (UnsupportedOperation (Name (operation e)))))"

subsection \<open>Reading results\<close>

text \<open>The kinds of the error taxonomy, read off the cause of an error.\<close>

fun isUnsupportedOperation :: "error \<Rightarrow> bool" where
  "isUnsupportedOperation (UnsupportedOperation n) = True"
| "isUnsupportedOperation err = False"

fun isCommandExecutionFailure :: "error \<Rightarrow> bool" where
  "isCommandExecutionFailure (CommandExecutionFailure m) = True"
| "isCommandExecutionFailure err = False"

fun isJobIDParseFailure :: "error \<Rightarrow> bool" where
  "isJobIDParseFailure (JobIDParseFailure s) = True"
| "isJobIDParseFailure err = False"

text \<open>A dispatch result is an error whose cause is of the given kind.\<close>

definition failsWith :: "(error \<Rightarrow> bool) \<Rightarrow> error + 'a \<Rightarrow> bool" where
  "failsWith kind r = (case r of Inl err \<Rightarrow> kind (Cause err) | Inr v \<Rightarrow> False)"

text \<open>The commands sent through the transport, in order.\<close>

fun transportCalls :: "call list \<Rightarrow> string list" where
  "transportCalls [] = []"
| "transportCalls (RunCommand_call cmd # cs) = cmd # transportCalls cs"
| "transportCalls (c # cs) = transportCalls cs"

text \<open>The values of the inputs named \<open>exec_command\<close> that are not empty, in input order.\<close>

definition execCommandValues :: "EnvInput list \<Rightarrow> string list" where
  "execCommandValues ins =
     map inputValue (filter (\<lambda>i. inputName i = ''exec_command'' \<and> inputValue i \<noteq> []) ins)"

text \<open>The command \<open>runJobCommand\<close> sends: the batch command or the interactive one, with
  the options of \<open>fillJobCommandOpts\<close>.\<close>

definition jobCommand :: "collaborators \<Rightarrow> executionSingularity \<Rightarrow> string" where
  "jobCommand w e =
     (if batchMode (jobInfo e) then batchCommand e (fillJobCommandOpts w e)
      else interactiveCommand e (fillJobCommandOpts w e) (UniqueTimestampedName w ''yorc_'' []))"

text \<open>The commands of the job identifier lookup that \<open>runJobCommand\<close> starts after an
  interactive submission the transport accepted; there is no lookup in batch mode or
  after a transport error.\<close>

definition lookupCommands :: "collaborators \<Rightarrow> executionSingularity \<Rightarrow> string list" where
  "lookupCommands w e =
     (if \<not> batchMode (jobInfo e) \<and> snd (RunCommand w (jobCommand w e)) = None
      then fst (lookupJobID w (deploymentID e) (ImplementedInNodeTemplate (operation e)))
      else [])"

text \<open>The dispatch gets as far as \<open>runJobCommand\<close>: the operation is accepted and the
  two build steps return no error.\<close>

definition reachesRunStage :: "collaborators \<Rightarrow> executionSingularity \<Rightarrow> bool" where
  "reachesRunStage w e =
     (ToLower (unicodeToLower w) (Name (operation e))
        = ''tosca.interfaces.node.lifecycle.runnable.run''
      \<and> snd (buildJobInfo w e) = None
      \<and> snd (buildSingularityInfo w (fst (buildJobInfo w e))) = None)"

text \<open>The execution as the two build steps leave it.\<close>

definition builtExecution :: "collaborators \<Rightarrow> executionSingularity \<Rightarrow> executionSingularity" where
  "builtExecution w e = fst (buildSingularityInfo w (fst (buildJobInfo w e)))"

text \<open>The segments of a path: the pieces between its slashes.\<close>

fun segments :: "string \<Rightarrow> string list" where
  "segments [] = [] # []"
| "segments (c # cs) =
     (if c = CHR ''/'' then [] # segments cs
      else (case segments cs of [] \<Rightarrow> [c] # [] | s # ss \<Rightarrow> (c # s) # ss))"

text \<open>A path that \<open>path.Clean\<close> has nothing to do on: relative, and each of its segments
  is a name, that is, not empty, not \<open>.\<close> and not \<open>..\<close>.\<close>

definition cleanPath :: "string \<Rightarrow> bool" where
  "cleanPath p = list_all (\<lambda>s. s \<noteq> [] \<and> s \<noteq> ''.'' \<and> s \<noteq> ''..'') (segments p)"

section \<open>A deployment to run the driver on\<close>

text \<open>A remote session whose scheduler accepts every submission as job 4821, and a
  deployment whose operation declares the repository \<open>myrepo\<close> at \<open>https://h\<close>.\<close>

definition exampleCollaborators :: collaborators where
  "exampleCollaborators =
     \<lparr>unicodeToLower = (\<lambda>s. s),
      jobInfoOf = (\<lambda>e. Inr \<lparr>batchMode = True, ID = [], monitoringTimeInterval = 5000000000,
                               inputs = [], outputs = [], execArgs = [], opts = []\<rparr>),
      fillJobCommandOpts = (\<lambda>e. []),
      parseOutputConfigFromOpts = (\<lambda>os. []),
      UniqueTimestampedName = (\<lambda>p s. p @ ''20181105'' @ s),
      RunCommand = (\<lambda>cmd. (''Submitted batch job 4821'' @ [CHR 0x0A], None)),
      GetOperationImplementationRepository = (\<lambda>d n t opn. Inr ''myrepo''),
      GetRepositoryURLFromName = (\<lambda>d r. Inr ''https://h''),
      DockerHubURL = ''https://hub.docker.com/'',
      SingularityHubURL = ''https://singularity-hub.org/'',
      url_Parse = (\<lambda>u. if u = ''https://h'' then Inr \<lparr>Host = ''h''\<rparr> else Inl ''parse''),
      lookupJobID = (\<lambda>d n. ([], Inr ''4822''))\<rparr>"

definition exampleExecution :: executionSingularity where
  "exampleExecution =
     \<lparr>operation = \<lparr>Name = ''Tosca.Interfaces.Node.Lifecycle.Runnable.Run'',
                    ImplementedInNodeTemplate = ''node''\<rparr>,
      deploymentID = ''dep'',
      NodeType = ''type'',
      EnvInputs = [],
      Primary = ''docker://img'',
      OperationRemoteBaseDir = ''/work'',
      OperationRemoteExecDir = [],
      jobInfo = \<lparr>batchMode = False, ID = [], monitoringTimeInterval = 0, inputs = [],
                  outputs = [], execArgs = [], opts = []\<rparr>,
      singularityInfo = \<lparr>command = [], imageName = [], imageURI = [], exec = []\<rparr>,
      calls = []\<rparr>"

text \<open>Five inputs: the choice \<open>ls\<close> is replaced by \<open>pwd\<close>, the two empty values and
  the input of another name change nothing.\<close>

definition exampleInputs :: "EnvInput list" where
  "exampleInputs =
     [\<lparr>inputName = ''exec_command'', inputValue = ''ls''\<rparr>,
      \<lparr>inputName = ''other'', inputValue = ''x''\<rparr>,
      \<lparr>inputName = ''exec_command'', inputValue = []\<rparr>,
      \<lparr>inputName = ''exec_command'', inputValue = ''pwd''\<rparr>,
      \<lparr>inputName = ''exec_command'', inputValue = []\<rparr>]"

text \<open>The example execution once its container information holds the image name \<open>n\<close>.\<close>

definition exampleWithImage :: "string \<Rightarrow> executionSingularity" where
  "exampleWithImage n =
     exampleExecution\<lparr>singularityInfo :=
       \<lparr>command = ''run'', imageName = n, imageURI = [], exec = []\<rparr>\<rparr>"

text \<open>The example deployment in interactive mode, and with a transport that fails.\<close>

definition exampleInteractive :: collaborators where
  "exampleInteractive =
     exampleCollaborators
       \<lparr>jobInfoOf := (\<lambda>e. Inr \<lparr>batchMode = False, ID = [], monitoringTimeInterval = 5000000000,
                                  inputs = [], outputs = [''old.out''], execArgs = [],
                                  opts = []\<rparr>),
        RunCommand := (\<lambda>cmd. (''srun: error: Unable to allocate resources'', Some ''exit 1''))\<rparr>"


text \<open>The example execution with two environment inputs in its job information.\<close>

definition exampleWithInputs :: executionSingularity where
  "exampleWithInputs =
     exampleExecution
       \<lparr>jobInfo := \<lparr>batchMode = True, ID = [], monitoringTimeInterval = 0,
                     inputs = [(''A'', ''1''), (''B'', ''x y'')], outputs = [],
                     execArgs = [''-B'', ''/scratch''], opts = []\<rparr>,
        singularityInfo := \<lparr>command = ''exec'', imageName = ''docker://img'',
                             imageURI = ''docker://h/img'', exec = ''ls''\<rparr>\<rparr>"

text \<open>The example deployment with a scheduler whose acknowledgment is a blank line.\<close>

definition exampleBlankAck :: collaborators where
  "exampleBlankAck = exampleCollaborators\<lparr>RunCommand := (\<lambda>cmd. ('' '' @ [CHR 0x0A], None))\<rparr>"

text \<open>The example deployment with the repository declared at the public Docker hub.\<close>

definition examplePublicHub :: collaborators where
  "examplePublicHub =
     exampleCollaborators\<lparr>GetRepositoryURLFromName := (\<lambda>d r. Inr ''https://hub.docker.com/'')\<rparr>"

section \<open>Which errors a stage can return\<close>

lemma buildJobInfo_error:
  "buildJobInfo w e = (e', Some err) \<Longrightarrow> \<not> isUnsupportedOperation (Cause err)"
  by (auto simp: buildJobInfo_def split: sum.splits)

lemma buildImageURI_error:
  "buildImageURI w p e = (e', Some err) \<Longrightarrow> \<not> isUnsupportedOperation (Cause err)"
  by (auto simp: buildImageURI_def Let_def split: sum.splits if_splits)

lemma resolveContainerImage_error:
  "resolveContainerImage w e = (e', Some err) \<Longrightarrow> \<not> isUnsupportedOperation (Cause err)"
  by (auto simp: resolveContainerImage_def split: if_splits dest: buildImageURI_error)

lemma buildSingularityInfo_error:
  "buildSingularityInfo w e = (e', Some err) \<Longrightarrow> \<not> isUnsupportedOperation (Cause err)"
  by (auto simp: buildSingularityInfo_def Let_def split: if_splits
      dest: resolveContainerImage_error)

lemma parseJobIDFromBatchOutput_error:
  "parseJobIDFromBatchOutput s = (j, Some err) \<Longrightarrow> \<not> isUnsupportedOperation (Cause err)"
  by (auto simp: parseJobIDFromBatchOutput_def split: list.splits)

lemma runBatchMode_error:
  "runBatchMode w c e = (e', Some err) \<Longrightarrow> \<not> isUnsupportedOperation (Cause err)"
  by (auto simp: runBatchMode_def Let_def split: prod.splits option.splits
      dest: parseJobIDFromBatchOutput_error)

lemma runInteractiveMode_error:
  "runInteractiveMode w c e = (e', Some err) \<Longrightarrow> \<not> isUnsupportedOperation (Cause err)"
  by (auto simp: runInteractiveMode_def Let_def split: prod.splits option.splits)

lemma retrieveJobID_error:
  "retrieveJobID w e = (e', Some err) \<Longrightarrow> \<not> isUnsupportedOperation (Cause err)"
  by (auto simp: retrieveJobID_def Let_def split: prod.splits sum.splits)

lemma runJobCommand_error:
  "runJobCommand w e = (e', Some err) \<Longrightarrow> \<not> isUnsupportedOperation (Cause err)"
  by (auto simp: runJobCommand_def Let_def searchForBatchOutputs_def
      split: prod.splits option.splits if_splits
      dest: runBatchMode_error runInteractiveMode_error retrieveJobID_error)

section \<open>Facts about the call record\<close>

lemma transportCalls_append: "transportCalls (xs @ ys) = transportCalls xs @ transportCalls ys"
  by (induction xs rule: transportCalls.induct) auto

section \<open>Operation dispatch\<close>

text \<open>
  C1. Dispatch accepts exactly the operation \<open>tosca.interfaces.node.lifecycle.runnable.run\<close>,
  compared after \<open>strings.ToLower\<close>: the dispatch fails with \<open>UnsupportedOperation\<close>
  if and only if the lower-cased operation name differs from this literal, and then it
  returns the execution as it received it: no call is recorded (no remote command, no
  lookup) and no field has changed.
\<close>

theorem executeAsync_operation_name:
  "failsWith isUnsupportedOperation (snd (executeAsync w e))
     = (ToLower (unicodeToLower w) (Name (operation e))
          \<noteq> ''tosca.interfaces.node.lifecycle.runnable.run'')
   \<and> (ToLower (unicodeToLower w) (Name (operation e))
          \<noteq> ''tosca.interfaces.node.lifecycle.runnable.run''
        \<longrightarrow> executeAsync w e = (e, Inl (UnsupportedOperation (Name (operation e))))
            \<and> transportCalls (calls (fst (executeAsync w e))) = transportCalls (calls e))"
  by (auto simp: executeAsync_def failsWith_def split: prod.splits option.splits
      dest: buildJobInfo_error buildSingularityInfo_error runJobCommand_error)

theorem executeAsync_operation_name_witness:
  "ToLower (\<lambda>s. s) ''Stop'' \<noteq> ''tosca.interfaces.node.lifecycle.runnable.run''
   \<and> snd (executeAsync exampleCollaborators
        (exampleExecution\<lparr>operation := \<lparr>Name = ''Stop'', ImplementedInNodeTemplate = ''node''\<rparr>\<rparr>))
       = Inl (UnsupportedOperation ''Stop'')
   \<and> transportCalls (calls (fst (executeAsync exampleCollaborators
        (exampleExecution\<lparr>operation := \<lparr>Name = ''Stop'', ImplementedInNodeTemplate = ''node''\<rparr>\<rparr>)))) = []
   \<and> ToLower (\<lambda>s. s) ''Tosca.Interfaces.Node.Lifecycle.Runnable.Run''
       = ''tosca.interfaces.node.lifecycle.runnable.run''
   \<and> \<not> failsWith isUnsupportedOperation (snd (executeAsync exampleCollaborators exampleExecution))"
proof -
  have stop: "ToLower (\<lambda>s. s) ''Stop'' \<noteq> ''tosca.interfaces.node.lifecycle.runnable.run''"
    by code_simp
  have run: "ToLower (\<lambda>s. s) ''Tosca.Interfaces.Node.Lifecycle.Runnable.Run''
       = ''tosca.interfaces.node.lifecycle.runnable.run''"
    by code_simp
  show ?thesis
    using stop run
      executeAsync_operation_name [of exampleCollaborators
        "exampleExecution\<lparr>operation := \<lparr>Name = ''Stop'', ImplementedInNodeTemplate = ''node''\<rparr>\<rparr>"]
      executeAsync_operation_name [of exampleCollaborators exampleExecution]
    by (simp add: exampleCollaborators_def exampleExecution_def)
qed

section \<open>Building the container information\<close>

lemma buildSingularityInfo_no_image:
  "Primary x = [] \<Longrightarrow> buildSingularityInfo w x = (x, Some MissingImageName)"
  by (simp add: buildSingularityInfo_def Let_def)

text \<open>
  C7. When the implementation artifact's image name \<open>e.Primary\<close> is empty,
  \<open>buildSingularityInfo\<close> fails with \<open>MissingImageName\<close> and leaves the execution as it
  was. A dispatch of such a request ends in an error with no call recorded (no lookup,
  no remote command) and with \<open>e.singularityInfo\<close> untouched, so no image was classified
  and no command composed; when the operation is accepted and the job information is
  built, the error is \<open>MissingImageName\<close> wrapped by the stage's message.
\<close>

theorem buildSingularityInfo_missing_image:
  "Primary e = [] \<longrightarrow>
     buildSingularityInfo w e = (e, Some MissingImageName)
     \<and> (\<exists>err. snd (executeAsync w e) = Inl err)
     \<and> calls (fst (executeAsync w e)) = calls e
     \<and> singularityInfo (fst (executeAsync w e)) = singularityInfo e
     \<and> (\<forall>ji. ToLower (unicodeToLower w) (Name (operation e))
                = ''tosca.interfaces.node.lifecycle.runnable.run''
             \<and> jobInfoOf w e = Inr ji
           \<longrightarrow> executeAsync w e
                = (e\<lparr>jobInfo := ji\<rparr>,
                   Inl (Wrap MissingImageName ''failed to build singularity information'')))"
proof
  assume p: "Primary e = []"
  show "buildSingularityInfo w e = (e, Some MissingImageName)
     \<and> (\<exists>err. snd (executeAsync w e) = Inl err)
     \<and> calls (fst (executeAsync w e)) = calls e
     \<and> singularityInfo (fst (executeAsync w e)) = singularityInfo e
     \<and> (\<forall>ji. ToLower (unicodeToLower w) (Name (operation e))
                = ''tosca.interfaces.node.lifecycle.runnable.run''
             \<and> jobInfoOf w e = Inr ji
           \<longrightarrow> executeAsync w e
                = (e\<lparr>jobInfo := ji\<rparr>,
                   Inl (Wrap MissingImageName ''failed to build singularity information'')))"
    using p
    by (cases "jobInfoOf w e")
       (simp_all add: buildSingularityInfo_no_image executeAsync_def buildJobInfo_def)
qed

theorem buildSingularityInfo_missing_image_witness:
  "Primary (exampleExecution\<lparr>Primary := []\<rparr>) = []
   \<and> buildSingularityInfo exampleCollaborators (exampleExecution\<lparr>Primary := []\<rparr>)
       = (exampleExecution\<lparr>Primary := []\<rparr>, Some MissingImageName)
   \<and> calls (fst (executeAsync exampleCollaborators (exampleExecution\<lparr>Primary := []\<rparr>))) = []
   \<and> snd (executeAsync exampleCollaborators (exampleExecution\<lparr>Primary := []\<rparr>))
       = Inl (Wrap MissingImageName ''failed to build singularity information'')"
proof -
  have run: "ToLower (\<lambda>s. s) ''Tosca.Interfaces.Node.Lifecycle.Runnable.Run''
       = ''tosca.interfaces.node.lifecycle.runnable.run''"
    by code_simp
  show ?thesis
    using run
      buildSingularityInfo_missing_image
        [of "exampleExecution\<lparr>Primary := []\<rparr>" exampleCollaborators]
    by (simp add: exampleCollaborators_def exampleExecution_def)
qed

lemma scanEnvInputs_result:
  "scanEnvInputs si ins =
     (if execCommandValues ins = [] then si
      else si\<lparr>exec := last (execCommandValues ins), command := ''exec''\<rparr>)"
  by (induction ins arbitrary: si) (auto simp: execCommandValues_def)

lemma buildImageURI_command_exec:
  "command (singularityInfo (fst (buildImageURI w p e))) = command (singularityInfo e)
   \<and> exec (singularityInfo (fst (buildImageURI w p e))) = exec (singularityInfo e)"
  by (auto simp: buildImageURI_def Let_def record_call_def set_imageURI_def split: sum.splits)

lemma resolveContainerImage_command_exec:
  "command (singularityInfo (fst (resolveContainerImage w e))) = command (singularityInfo e)
   \<and> exec (singularityInfo (fst (resolveContainerImage w e))) = exec (singularityInfo e)"
  by (simp add: resolveContainerImage_def buildImageURI_command_exec set_imageURI_def)

lemma buildSingularityInfo_result_command_exec:
  "Primary e \<noteq> [] \<Longrightarrow>
     command (singularityInfo (fst (buildSingularityInfo w e)))
       = (if execCommandValues (EnvInputs e) = [] then ''run'' else ''exec'')
     \<and> exec (singularityInfo (fst (buildSingularityInfo w e)))
       = (if execCommandValues (EnvInputs e) = [] then []
          else last (execCommandValues (EnvInputs e)))"
  by (simp add: buildSingularityInfo_def Let_def resolveContainerImage_command_exec
      scanEnvInputs_result)

lemma runJobCommand_singularityInfo:
  "singularityInfo (fst (runJobCommand w e)) = singularityInfo e"
  by (auto simp: runJobCommand_def Let_def searchForBatchOutputs_def runBatchMode_def
      runInteractiveMode_def retrieveJobID_def record_call_def
      split: prod.splits option.splits sum.splits)

lemma executeAsync_singularityInfo:
  assumes "ToLower (unicodeToLower w) (Name (operation e))
             = ''tosca.interfaces.node.lifecycle.runnable.run''"
    and "jobInfoOf w e = Inr ji"
  shows "singularityInfo (fst (executeAsync w e))
           = singularityInfo (fst (buildSingularityInfo w (e\<lparr>jobInfo := ji\<rparr>)))"
proof (cases "buildSingularityInfo w (e\<lparr>jobInfo := ji\<rparr>)")
  case (Pair e2 r)
  show ?thesis
  proof (cases r)
    case None
    with Pair assms runJobCommand_singularityInfo [of w e2] show ?thesis
      by (cases "runJobCommand w e2")
         (auto simp: executeAsync_def buildJobInfo_def split: option.splits)
  next
    case (Some err)
    with Pair assms show ?thesis
      by (simp add: executeAsync_def buildJobInfo_def)
  qed
qed

text \<open>
  C9. When the image name is not empty, \<open>buildSingularityInfo\<close> leaves in
  \<open>e.singularityInfo\<close>: the sub-command \<open>exec\<close> and, as in-container command, the value of
  the last input named \<open>exec_command\<close> with a non-empty value, if there is such an input
  (inputs named \<open>exec_command\<close> with an empty value do not count); the sub-command \<open>run\<close> and
  an empty in-container command otherwise. So the in-container command is non-empty only
  with the sub-command \<open>exec\<close>. A dispatch that is accepted and has its job information
  built ends with the same two values.
\<close>

theorem buildSingularityInfo_command_exec:
  "Primary e \<noteq> [] \<longrightarrow>
     command (singularityInfo (fst (buildSingularityInfo w e)))
       = (if execCommandValues (EnvInputs e) = [] then ''run'' else ''exec'')
     \<and> exec (singularityInfo (fst (buildSingularityInfo w e)))
       = (if execCommandValues (EnvInputs e) = [] then []
          else last (execCommandValues (EnvInputs e)))
     \<and> (exec (singularityInfo (fst (buildSingularityInfo w e))) \<noteq> []
          \<longrightarrow> command (singularityInfo (fst (buildSingularityInfo w e))) = ''exec'')
     \<and> (\<forall>ji. ToLower (unicodeToLower w) (Name (operation e))
                = ''tosca.interfaces.node.lifecycle.runnable.run''
             \<and> jobInfoOf w e = Inr ji
           \<longrightarrow> command (singularityInfo (fst (executeAsync w e)))
                 = (if execCommandValues (EnvInputs e) = [] then ''run'' else ''exec'')
               \<and> exec (singularityInfo (fst (executeAsync w e)))
                 = (if execCommandValues (EnvInputs e) = [] then []
                    else last (execCommandValues (EnvInputs e))))"
proof
  assume p: "Primary e \<noteq> []"
  have d: "command (singularityInfo (fst (executeAsync w e)))
                 = (if execCommandValues (EnvInputs e) = [] then ''run'' else ''exec'')
               \<and> exec (singularityInfo (fst (executeAsync w e)))
                 = (if execCommandValues (EnvInputs e) = [] then []
                    else last (execCommandValues (EnvInputs e)))"
    if "ToLower (unicodeToLower w) (Name (operation e))
                = ''tosca.interfaces.node.lifecycle.runnable.run''"
      and "jobInfoOf w e = Inr ji" for ji
    using that p executeAsync_singularityInfo [of w e ji]
      buildSingularityInfo_result_command_exec [of "e\<lparr>jobInfo := ji\<rparr>" w]
    by simp
  from p d buildSingularityInfo_result_command_exec [of e w]
  show "command (singularityInfo (fst (buildSingularityInfo w e)))
       = (if execCommandValues (EnvInputs e) = [] then ''run'' else ''exec'')
     \<and> exec (singularityInfo (fst (buildSingularityInfo w e)))
       = (if execCommandValues (EnvInputs e) = [] then []
          else last (execCommandValues (EnvInputs e)))
     \<and> (exec (singularityInfo (fst (buildSingularityInfo w e))) \<noteq> []
          \<longrightarrow> command (singularityInfo (fst (buildSingularityInfo w e))) = ''exec'')
     \<and> (\<forall>ji. ToLower (unicodeToLower w) (Name (operation e))
                = ''tosca.interfaces.node.lifecycle.runnable.run''
             \<and> jobInfoOf w e = Inr ji
           \<longrightarrow> command (singularityInfo (fst (executeAsync w e)))
                 = (if execCommandValues (EnvInputs e) = [] then ''run'' else ''exec'')
               \<and> exec (singularityInfo (fst (executeAsync w e)))
                 = (if execCommandValues (EnvInputs e) = [] then []
                    else last (execCommandValues (EnvInputs e))))"
    by simp
qed

theorem buildSingularityInfo_command_exec_witness:
  "Primary (exampleExecution\<lparr>EnvInputs := exampleInputs\<rparr>) \<noteq> []
   \<and> command (singularityInfo (fst (buildSingularityInfo exampleCollaborators
        (exampleExecution\<lparr>EnvInputs := exampleInputs\<rparr>)))) = ''exec''
   \<and> exec (singularityInfo (fst (buildSingularityInfo exampleCollaborators
        (exampleExecution\<lparr>EnvInputs := exampleInputs\<rparr>)))) = ''pwd''
   \<and> exec (singularityInfo (fst (executeAsync exampleCollaborators
        (exampleExecution\<lparr>EnvInputs := exampleInputs\<rparr>)))) = ''pwd''
   \<and> command (singularityInfo (fst (buildSingularityInfo exampleCollaborators
        exampleExecution))) = ''run''
   \<and> exec (singularityInfo (fst (buildSingularityInfo exampleCollaborators
        exampleExecution))) = []"
proof -
  have run: "ToLower (\<lambda>s. s) ''Tosca.Interfaces.Node.Lifecycle.Runnable.Run''
       = ''tosca.interfaces.node.lifecycle.runnable.run''"
    by code_simp
  show ?thesis
    using run
      buildSingularityInfo_command_exec
        [of "exampleExecution\<lparr>EnvInputs := exampleInputs\<rparr>" exampleCollaborators]
      buildSingularityInfo_command_exec [of exampleExecution exampleCollaborators]
    by (simp add: exampleCollaborators_def exampleExecution_def exampleInputs_def
        execCommandValues_def)
qed

section \<open>Classifying the image name\<close>

text \<open>
  C3. \<open>resolveContainerImage\<close> classifies the image name in this order: the prefix
  \<open>docker://\<close>, then the prefix \<open>shub://\<close>, then the suffix \<open>.simg\<close> or \<open>.img\<close>. A name
  with one of the prefixes goes to \<open>buildImageURI\<close> with that prefix, whatever its
  suffix. A name with a suffix and no prefix becomes the image URI as it is, whatever
  the collaborators are, and no call is recorded. Any other name fails with
  \<open>UnresolvableImage\<close> and leaves the execution unchanged.
\<close>

theorem resolveContainerImage_classification:
  "(HasPrefix (imageName (singularityInfo e)) ''docker://''
      \<longrightarrow> resolveContainerImage w e = buildImageURI w ''docker://'' e)
   \<and> (\<not> HasPrefix (imageName (singularityInfo e)) ''docker://''
        \<and> HasPrefix (imageName (singularityInfo e)) ''shub://''
      \<longrightarrow> resolveContainerImage w e = buildImageURI w ''shub://'' e)
   \<and> (\<not> HasPrefix (imageName (singularityInfo e)) ''docker://''
        \<and> \<not> HasPrefix (imageName (singularityInfo e)) ''shub://''
        \<and> (HasSuffix (imageName (singularityInfo e)) ''.simg''
             \<or> HasSuffix (imageName (singularityInfo e)) ''.img'')
      \<longrightarrow> resolveContainerImage w e
            = (e\<lparr>singularityInfo := (singularityInfo e)\<lparr>imageURI := imageName (singularityInfo e)\<rparr>\<rparr>,
               None)
          \<and> imageURI (singularityInfo (fst (resolveContainerImage w e)))
              = imageName (singularityInfo e)
          \<and> calls (fst (resolveContainerImage w e)) = calls e)
   \<and> (\<not> HasPrefix (imageName (singularityInfo e)) ''docker://''
        \<and> \<not> HasPrefix (imageName (singularityInfo e)) ''shub://''
        \<and> \<not> HasSuffix (imageName (singularityInfo e)) ''.simg''
        \<and> \<not> HasSuffix (imageName (singularityInfo e)) ''.img''
      \<longrightarrow> resolveContainerImage w e
            = (e, Some (UnresolvableImage (imageName (singularityInfo e)))))
   \<and> (\<not> HasPrefix (Primary e) ''docker://'' \<and> \<not> HasPrefix (Primary e) ''shub://''
        \<and> (HasSuffix (Primary e) ''.simg'' \<or> HasSuffix (Primary e) ''.img'')
      \<longrightarrow> snd (buildSingularityInfo w e) = None
          \<and> imageURI (singularityInfo (fst (buildSingularityInfo w e))) = Primary e
          \<and> calls (fst (buildSingularityInfo w e)) = calls e)
   \<and> (Primary e \<noteq> []
        \<and> \<not> HasPrefix (Primary e) ''docker://'' \<and> \<not> HasPrefix (Primary e) ''shub://''
        \<and> \<not> HasSuffix (Primary e) ''.simg'' \<and> \<not> HasSuffix (Primary e) ''.img''
      \<longrightarrow> snd (buildSingularityInfo w e) = Some (UnresolvableImage (Primary e))
          \<and> calls (fst (buildSingularityInfo w e)) = calls e)"
proof -
  have no_suffix: "\<not> HasSuffix [] ''.simg''" "\<not> HasSuffix [] ''.img''"
    by (simp_all add: HasSuffix_def)
  show ?thesis
    by (auto simp: resolveContainerImage_def set_imageURI_def buildSingularityInfo_def Let_def
        no_suffix)
qed

theorem resolveContainerImage_classification_witness:
  "HasPrefix ''docker://a.img'' ''docker://''
   \<and> imageURI (singularityInfo (fst (resolveContainerImage exampleCollaborators
         (exampleWithImage ''docker://a.img'')))) = ''docker://h/a.img''
   \<and> \<not> HasPrefix ''shub://b/c'' ''docker://'' \<and> HasPrefix ''shub://b/c'' ''shub://''
   \<and> imageURI (singularityInfo (fst (resolveContainerImage exampleCollaborators
         (exampleWithImage ''shub://b/c'')))) = ''shub://h/b/c''
   \<and> \<not> HasPrefix ''lib/a.simg'' ''docker://'' \<and> \<not> HasPrefix ''lib/a.simg'' ''shub://''
   \<and> HasSuffix ''lib/a.simg'' ''.simg''
   \<and> imageURI (singularityInfo (fst (resolveContainerImage exampleCollaborators
         (exampleWithImage ''lib/a.simg'')))) = ''lib/a.simg''
   \<and> calls (fst (resolveContainerImage exampleCollaborators (exampleWithImage ''lib/a.simg''))) = []
   \<and> \<not> HasPrefix ''ubuntu'' ''docker://'' \<and> \<not> HasPrefix ''ubuntu'' ''shub://''
   \<and> \<not> HasSuffix ''ubuntu'' ''.simg'' \<and> \<not> HasSuffix ''ubuntu'' ''.img''
   \<and> snd (resolveContainerImage exampleCollaborators (exampleWithImage ''ubuntu''))
       = Some (UnresolvableImage ''ubuntu'')
   \<and> imageURI (singularityInfo (fst (buildSingularityInfo exampleCollaborators
         (exampleExecution\<lparr>Primary := ''lib/a.simg''\<rparr>)))) = ''lib/a.simg''
   \<and> snd (buildSingularityInfo exampleCollaborators (exampleExecution\<lparr>Primary := ''ubuntu''\<rparr>))
       = Some (UnresolvableImage ''ubuntu'')"
proof -
  have d: "imageURI (singularityInfo (fst (buildImageURI exampleCollaborators ''docker://''
             (exampleWithImage ''docker://a.img'')))) = ''docker://h/a.img''"
    by code_simp
  have s: "imageURI (singularityInfo (fst (buildImageURI exampleCollaborators ''shub://''
             (exampleWithImage ''shub://b/c'')))) = ''shub://h/b/c''"
    by code_simp
  show ?thesis
    using d s
      resolveContainerImage_classification
        [of "exampleWithImage ''docker://a.img''" exampleCollaborators]
      resolveContainerImage_classification
        [of "exampleWithImage ''shub://b/c''" exampleCollaborators]
      resolveContainerImage_classification
        [of "exampleWithImage ''lib/a.simg''" exampleCollaborators]
      resolveContainerImage_classification
        [of "exampleWithImage ''ubuntu''" exampleCollaborators]
      resolveContainerImage_classification
        [of "exampleExecution\<lparr>Primary := ''lib/a.simg''\<rparr>" exampleCollaborators]
      resolveContainerImage_classification
        [of "exampleExecution\<lparr>Primary := ''ubuntu''\<rparr>" exampleCollaborators]
    by (simp add: exampleWithImage_def exampleExecution_def HasPrefix_def HasSuffix_def)
qed

section \<open>Paths that are clean already\<close>

lemma segments_nonempty: "segments p \<noteq> []"
  by (induction p) (auto split: list.splits)

lemma segments_no_slash: "s \<in> set (segments p) \<Longrightarrow> CHR ''/'' \<notin> set s"
  by (induction p arbitrary: s) (auto split: if_splits list.splits)

lemma segments_join: "strings_Join (segments p) ''/'' = p"
proof (induction p)
  case Nil
  show ?case by simp
next
  case (Cons c cs)
  obtain s ss where ss: "segments cs = s # ss"
    using segments_nonempty [of cs] by (cases "segments cs") auto
  show ?case
    using Cons ss by (cases ss) auto
qed

text \<open>One step of the loop of \<open>Clean\<close> over a segment that is a name, followed by the
  end of the path or by a slash.\<close>

lemma Clean_loop_name:
  assumes s: "s \<noteq> []" "CHR ''/'' \<notin> set s" "s \<noteq> ''.''" "s \<noteq> ''..''"
    and t: "t = [] \<or> hd t = CHR ''/''"
  shows "Clean_loop False out d (s @ t)
           = Clean_loop False ((if out = [] then out else out @ ''/'') @ s) d t"
proof -
  obtain c r where cr: "s = c # r"
    using s(1) by (cases s) auto
  have c: "c \<noteq> CHR ''/''" and r: "CHR ''/'' \<notin> set r"
    using s(2) cr by auto
  have dot: "\<not> (c = CHR ''.'' \<and> (r @ t = [] \<or> hd (r @ t) = CHR ''/''))"
    using s(3) cr r by (cases r) auto
  have dotdot: "\<not> (c = CHR ''.'' \<and> hd (r @ t) = CHR ''.''
                  \<and> (tl (r @ t) = [] \<or> hd (tl (r @ t)) = CHR ''/''))"
  proof (cases r)
    case Nil
    with t s(3) cr show ?thesis by auto
  next
    case (Cons c2 r2)
    with s(4) cr r show ?thesis by (cases r2) auto
  qed
  have all: "x \<noteq> CHR ''/''" if "x \<in> set r" for x
    using that r by auto
  have tw: "takeWhile (\<lambda>x. x \<noteq> CHR ''/'') (c # r @ t) = c # r"
    using c t all by (cases t) (simp_all add: takeWhile_append2 [OF all])
  have dw: "dropWhile (\<lambda>x. x \<noteq> CHR ''/'') (c # r @ t) = t"
    using c t all by (cases t) (simp_all add: dropWhile_append2 [OF all])
  have c': "(c = CHR ''/'') = False"
    using c by simp
  have dot': "(c = CHR ''.'' \<and> (r @ t = [] \<or> hd (r @ t) = CHR ''/'')) = False"
    using dot by simp
  have dotdot': "(c = CHR ''.'' \<and> hd (r @ t) = CHR ''.''
                  \<and> (tl (r @ t) = [] \<or> hd (tl (r @ t)) = CHR ''/'')) = False"
    using dotdot by simp
  have "Clean_loop False out d (c # r @ t)
          = Clean_loop False
              ((if False \<and> length out \<noteq> 1 \<or> \<not> False \<and> length out \<noteq> 0
                then out @ ''/'' else out) @ c # r) d t"
    by (subst Clean_loop.simps(2)) (simp only: c' dot' dotdot' if_False Let_def tw dw)
  then show ?thesis
    unfolding cr by (cases out) simp_all
qed

lemma Clean_loop_names:
  "ss \<noteq> [] \<Longrightarrow> \<forall>s \<in> set ss. s \<noteq> [] \<and> CHR ''/'' \<notin> set s \<and> s \<noteq> ''.'' \<and> s \<noteq> ''..''
   \<Longrightarrow> Clean_loop False out d (strings_Join ss ''/'')
        = (if out = [] then out else out @ ''/'') @ strings_Join ss ''/''"
proof (induction ss arbitrary: out)
  case Nil
  then show ?case by simp
next
  case (Cons s ss)
  show ?case
  proof (cases ss)
    case Nil
    with Cons.prems Clean_loop_name [of s "[]" out d] show ?thesis
      by (simp add: Clean_loop.simps)
  next
    case (Cons s2 ss2)
    let ?rest = "strings_Join ss ''/''"
    have "Clean_loop False out d (s @ ''/'' @ ?rest)
            = Clean_loop False ((if out = [] then out else out @ ''/'') @ s) d (''/'' @ ?rest)"
      using Cons.prems by (intro Clean_loop_name) auto
    also have "\<dots> = Clean_loop False ((if out = [] then out else out @ ''/'') @ s) d ?rest"
      by (simp add: Clean_loop.simps)
    also have "\<dots> = ((if out = [] then out else out @ ''/'') @ s) @ ''/'' @ ?rest"
      using Cons.IH [of "(if out = [] then out else out @ ''/'') @ s"] Cons.prems Cons
      by auto
    finally show ?thesis
      using Cons by simp
  qed
qed

lemma Clean_cleanPath: "cleanPath p \<Longrightarrow> Clean p = p"
proof -
  assume cp: "cleanPath p"
  have names: "\<forall>s \<in> set (segments p). s \<noteq> [] \<and> CHR ''/'' \<notin> set s \<and> s \<noteq> ''.'' \<and> s \<noteq> ''..''"
    using cp segments_no_slash by (auto simp: cleanPath_def list_all_iff)
  have ne: "p \<noteq> []"
    using cp by (auto simp: cleanPath_def)
  have rel: "hd p \<noteq> CHR ''/''"
    using cp ne by (cases p) (auto simp: cleanPath_def)
  have "Clean_loop False [] 0 (strings_Join (segments p) ''/'') = strings_Join (segments p) ''/''"
    using Clean_loop_names [OF segments_nonempty names, of "[]" 0] by simp
  then have "Clean_loop False [] 0 p = p"
    by (simp add: segments_join)
  with ne rel show ?thesis
    by (simp add: Clean_def)
qed

section \<open>Rewriting the image reference against the declared repository\<close>

lemma Index_HasPrefix: "HasPrefix s sep \<Longrightarrow> Index s sep = Some 0"
  by (cases s) (auto simp: HasPrefix_def)

lemma HasPrefix_append: "HasPrefix (p @ s) p"
  by (simp add: HasPrefix_def)

lemma Split_after_prefix:
  assumes "p \<noteq> []" and "\<not> Contains S p"
  shows "Split (p @ S) p = [] # [S]"
proof -
  have "Index S p = None"
    using assms(2) by (simp add: Contains_def)
  then have "Split S p = [S]"
    using assms(1) by (simp add: Split.simps [of S])
  then show ?thesis
    using assms(1) by (simp add: Split.simps [of "p @ S"] Index_HasPrefix HasPrefix_append)
qed

lemma cleanPath_host: "cleanPath (h @ ''/'' @ S) \<Longrightarrow> h \<noteq> []"
  by (cases h) (auto simp: cleanPath_def)

lemma path_Join_cleanPath:
  assumes "cleanPath (h @ ''/'' @ S)"
  shows "path_Join [h, S] = h @ ''/'' @ S"
proof -
  have "h \<noteq> []"
    using assms by (rule cleanPath_host)
  then have "path_Join [h, S] = Clean (h @ ''/'' @ S)"
    by (simp add: path_Join_def split: list.splits)
  with assms show ?thesis
    by (simp add: Clean_cleanPath)
qed

lemma resolveContainerImage_prefixed:
  assumes "p = ''docker://'' \<or> p = ''shub://''" and "imageName (singularityInfo e) = p @ S"
  shows "resolveContainerImage w e = buildImageURI w p e"
  using assms by (auto simp: resolveContainerImage_def HasPrefix_def)

text \<open>
  C2, as the code has it. Let the raw image name be a prefix \<open>docker://\<close> or \<open>shub://\<close>
  followed by \<open>S\<close>, and let the lookups in the deployment store succeed. If no repository
  name is declared, or the declared URL is empty or one of the two public defaults, the
  resolved image URI is the raw name. Otherwise, if the URL parses and the prefix does
  not occur again in \<open>S\<close>, the resolved URI is the prefix followed by
  \<open>path.Join(host, S)\<close>; this is \<open>prefix + host + "/" + S\<close> whenever \<open>host + "/" + S\<close> is a
  clean path, that is, has no empty segment, no \<open>.\<close> and no \<open>..\<close> segment.
\<close>

theorem resolveContainerImage_registry_substitution:
  assumes "p = ''docker://'' \<or> p = ''shub://''"
    and "imageName (singularityInfo e) = p @ S"
    and "GetOperationImplementationRepository w (deploymentID e)
           (ImplementedInNodeTemplate (operation e)) (NodeType e) (Name (operation e))
         = Inr repoName"
    and "repoName \<noteq> [] \<longrightarrow> GetRepositoryURLFromName w (deploymentID e) repoName = Inr repoURL"
  shows "(repoName = [] \<or> repoURL = [] \<or> repoURL = DockerHubURL w
            \<or> repoURL = SingularityHubURL w
          \<longrightarrow> snd (resolveContainerImage w e) = None
              \<and> imageURI (singularityInfo (fst (resolveContainerImage w e))) = p @ S)
       \<and> (repoName \<noteq> [] \<and> repoURL \<noteq> [] \<and> repoURL \<noteq> DockerHubURL w
            \<and> repoURL \<noteq> SingularityHubURL w \<and> url_Parse w repoURL = Inr u
            \<and> \<not> Contains S p
          \<longrightarrow> snd (resolveContainerImage w e) = None
              \<and> imageURI (singularityInfo (fst (resolveContainerImage w e)))
                  = p @ path_Join [Host u, S]
              \<and> (cleanPath (Host u @ ''/'' @ S)
                  \<longrightarrow> imageURI (singularityInfo (fst (resolveContainerImage w e)))
                        = p @ Host u @ ''/'' @ S))"
proof -
  have r: "resolveContainerImage w e = buildImageURI w p e"
    using assms(1,2) by (rule resolveContainerImage_prefixed)
  have p: "p \<noteq> []"
    using assms(1) by auto
  have unchanged: "snd (buildImageURI w p e) = None
              \<and> imageURI (singularityInfo (fst (buildImageURI w p e))) = p @ S"
    if "repoName = [] \<or> repoURL = [] \<or> repoURL = DockerHubURL w
            \<or> repoURL = SingularityHubURL w"
    using that assms(2,3,4)
    by (auto simp: buildImageURI_def Let_def record_call_def set_imageURI_def)
  have rewritten: "snd (buildImageURI w p e) = None
              \<and> imageURI (singularityInfo (fst (buildImageURI w p e)))
                  = p @ path_Join [Host u, S]"
    if "repoName \<noteq> []" "repoURL \<noteq> []" "repoURL \<noteq> DockerHubURL w"
      "repoURL \<noteq> SingularityHubURL w" "url_Parse w repoURL = Inr u" "\<not> Contains S p"
    using that assms(2,3,4) Split_after_prefix [OF p that(6)]
    by (simp add: buildImageURI_def Let_def record_call_def set_imageURI_def)
  from unchanged rewritten show ?thesis
    unfolding r by (auto simp: path_Join_cleanPath)
qed

theorem resolveContainerImage_registry_substitution_witness:
  "imageName (singularityInfo (exampleWithImage ''docker://img'')) = ''docker://'' @ ''img''
   \<and> \<not> Contains ''img'' ''docker://''
   \<and> cleanPath (''h'' @ ''/'' @ ''img'')
   \<and> imageURI (singularityInfo (fst (resolveContainerImage exampleCollaborators
        (exampleWithImage ''docker://img'')))) = ''docker://h/img''
   \<and> imageURI (singularityInfo (fst (resolveContainerImage examplePublicHub
        (exampleWithImage ''docker://img'')))) = ''docker://img''"
proof -
  have c: "\<not> Contains ''img'' ''docker://''"
    by code_simp
  have k: "cleanPath (''h'' @ ''/'' @ ''img'')"
    by code_simp
  have j: "path_Join [''h'', ''img''] = ''h/img''"
    by code_simp
  show ?thesis
    using c k j
      resolveContainerImage_registry_substitution [where w = exampleCollaborators
        and e = "exampleWithImage ''docker://img''" and p = "''docker://''" and S = "''img''"
        and repoName = "''myrepo''" and repoURL = "''https://h''" and u = "\<lparr>Host = ''h''\<rparr>"]
      resolveContainerImage_registry_substitution [where w = examplePublicHub
        and e = "exampleWithImage ''docker://img''" and p = "''docker://''" and S = "''img''"
        and repoName = "''myrepo''" and repoURL = "''https://hub.docker.com/''"
        and u = "\<lparr>Host = ''h''\<rparr>"]
    by (simp add: exampleWithImage_def exampleExecution_def exampleCollaborators_def
        examplePublicHub_def)
qed

theorem resolveContainerImage_double_slash:
  "imageName (singularityInfo (exampleWithImage ''docker://library//ubuntu''))
     = ''docker://'' @ ''library//ubuntu''
   \<and> GetOperationImplementationRepository exampleCollaborators ''dep'' ''node'' ''type''
        ''Tosca.Interfaces.Node.Lifecycle.Runnable.Run'' = Inr ''myrepo''
   \<and> GetRepositoryURLFromName exampleCollaborators ''dep'' ''myrepo'' = Inr ''https://h''
   \<and> ''https://h'' \<noteq> DockerHubURL exampleCollaborators
   \<and> ''https://h'' \<noteq> SingularityHubURL exampleCollaborators
   \<and> url_Parse exampleCollaborators ''https://h'' = Inr \<lparr>Host = ''h''\<rparr>
   \<and> imageURI (singularityInfo (fst (resolveContainerImage exampleCollaborators
        (exampleWithImage ''docker://library//ubuntu'')))) = ''docker://h/library/ubuntu''
   \<and> imageURI (singularityInfo (fst (resolveContainerImage exampleCollaborators
        (exampleWithImage ''docker://library//ubuntu''))))
       \<noteq> ''docker://'' @ ''h'' @ ''/'' @ ''library//ubuntu''"
  by code_simp

section \<open>The command strings\<close>

lemma runBatchMode_calls:
  "calls (fst (runBatchMode w cmdOpts e)) = calls e @ [RunCommand_call (batchCommand e cmdOpts)]"
  by (auto simp: runBatchMode_def Let_def record_call_def split: prod.splits option.splits)

lemma runInteractiveMode_calls:
  "calls (fst (runInteractiveMode w cmdOpts e))
     = calls e @ [RunCommand_call
         (interactiveCommand e cmdOpts (UniqueTimestampedName w ''yorc_'' []))]"
  by (auto simp: runInteractiveMode_def Let_def record_call_def Trim_def interactiveCommand_def
      split: prod.splits option.splits)

lemma runInteractiveMode_result:
  "runInteractiveMode w cmdOpts e
     = (e\<lparr>jobInfo := (jobInfo e)\<lparr>outputs := [UniqueTimestampedName w ''yorc_'' []]\<rparr>,
          calls := calls e @ [RunCommand_call
             (interactiveCommand e cmdOpts (UniqueTimestampedName w ''yorc_'' []))]\<rparr>,
        case RunCommand w (interactiveCommand e cmdOpts (UniqueTimestampedName w ''yorc_'' [])) of
          (ack, Some err) \<Rightarrow> Some (Wrap (CommandExecutionFailure err) ack)
        | (ack, None) \<Rightarrow> None)"
  by (auto simp: runInteractiveMode_def Let_def record_call_def Trim_def interactiveCommand_def
      split: prod.splits option.splits)

lemma exportsOf_statements:
  "exportsOf xs = concat (map (\<lambda>(k, v). ''export '' @ k @ ''='' @ v @ '';'') xs)"
  by (induction xs rule: exportsOf.induct) auto

text \<open>
  C4. The command \<open>runBatchMode\<close> hands to the transport is
  \<open>mkdir -p <dir>;cd <dir>;sbatch --wrap="<exports>srun <opts> singularity <subcommand> <imageURI> <execCommand>"\<close>
  with the values substituted verbatim, where the exports are the statements
  \<open>export <name>=<value>;\<close> of the inputs, one after the other. With no inputs, empty
  options, sub-command \<open>run\<close>, image URI \<open>docker://h/img\<close>, empty in-container command
  and directory \<open>/work\<close> it is
  \<open>mkdir -p /work;cd /work;sbatch --wrap="srun  singularity run docker://h/img "\<close>.
  The extra execution arguments \<open>e.jobInfo.execArgs\<close> have no influence on the command.
\<close>

theorem runBatchMode_command:
  "transportCalls (calls (fst (runBatchMode w cmdOpts e)))
     = transportCalls (calls e)
       @ [''mkdir -p '' @ OperationRemoteBaseDir e @ '';cd '' @ OperationRemoteBaseDir e
          @ '';sbatch --wrap='' @ [CHR 0x22]
          @ concat (map (\<lambda>(k, v). ''export '' @ k @ ''='' @ v @ '';'') (inputs (jobInfo e)))
          @ ''srun '' @ cmdOpts @ '' singularity ''
          @ command (singularityInfo e) @ '' '' @ imageURI (singularityInfo e) @ '' ''
          @ exec (singularityInfo e) @ [CHR 0x22]]
   \<and> (inputs (jobInfo e) = [] \<and> cmdOpts = []
        \<and> command (singularityInfo e) = ''run''
        \<and> imageURI (singularityInfo e) = ''docker://h/img''
        \<and> exec (singularityInfo e) = [] \<and> OperationRemoteBaseDir e = ''/work''
      \<longrightarrow> transportCalls (calls (fst (runBatchMode w cmdOpts e)))
            = transportCalls (calls e)
              @ [''mkdir -p /work;cd /work;sbatch --wrap='' @ [CHR 0x22]
                 @ ''srun  singularity run docker://h/img '' @ [CHR 0x22]])
   \<and> transportCalls (calls (fst (runBatchMode w cmdOpts
          (e\<lparr>jobInfo := (jobInfo e)\<lparr>execArgs := args\<rparr>\<rparr>))))
       = transportCalls (calls (fst (runBatchMode w cmdOpts e)))"
  by (simp add: runBatchMode_calls transportCalls_append batchCommand_def exportsOf_statements)

theorem runBatchMode_command_witness:
  "inputs (jobInfo (exampleWithImage ''docker://img'')) = []
   \<and> transportCalls (calls (fst (runBatchMode exampleCollaborators []
        (exampleWithImage ''docker://img''\<lparr>singularityInfo :=
           \<lparr>command = ''run'', imageName = ''docker://img'', imageURI = ''docker://h/img'',
             exec = []\<rparr>\<rparr>))))
       = [''mkdir -p /work;cd /work;sbatch --wrap='' @ [CHR 0x22]
            @ ''srun  singularity run docker://h/img '' @ [CHR 0x22]]
   \<and> inputs (jobInfo exampleWithInputs) = [(''A'', ''1''), (''B'', ''x y'')]
   \<and> execArgs (jobInfo exampleWithInputs) = [''-B'', ''/scratch'']
   \<and> transportCalls (calls (fst (runBatchMode exampleCollaborators ''--mem=2G''
        exampleWithInputs)))
       = [''mkdir -p /work;cd /work;sbatch --wrap='' @ [CHR 0x22]
            @ ''export A=1;export B=x y;srun --mem=2G singularity exec docker://h/img ls''
            @ [CHR 0x22]]"
  using runBatchMode_command [of exampleCollaborators "[]"
      "exampleWithImage ''docker://img''\<lparr>singularityInfo :=
           \<lparr>command = ''run'', imageName = ''docker://img'', imageURI = ''docker://h/img'',
             exec = []\<rparr>\<rparr>"]
    runBatchMode_command [of exampleCollaborators "''--mem=2G''" exampleWithInputs]
  by (simp add: exampleWithImage_def exampleExecution_def exampleWithInputs_def)

lemma HasSuffix_append: "HasSuffix (a @ b) b"
  by (simp add: HasSuffix_def)

lemma exportsOf_srun_head:
  "\<exists>c t. exportsOf xs @ ''srun '' @ r = c # t \<and> \<not> isSpace c"
  by (cases xs) (auto simp: isSpace_def)

lemma TrimSpace_unchanged:
  "\<not> isSpace c \<Longrightarrow> \<not> isSpace d \<Longrightarrow> TrimSpace (c # m @ [d]) = c # m @ [d]"
  by (simp add: TrimSpace_def)

lemma TrimSpace_interactiveCommand:
  "TrimSpace (interactiveCommand e cmdOpts rf) = interactiveCommand e cmdOpts rf"
proof -
  let ?r = "cmdOpts @ '' singularity ''
       @ command (singularityInfo e) @ '' '' @ strings_Join (execArgs (jobInfo e)) '' ''
       @ '' '' @ imageURI (singularityInfo e) @ '' '' @ exec (singularityInfo e)
       @ '' > '' @ rf @ '' ''"
  obtain c t where ct: "exportsOf (inputs (jobInfo e)) @ ''srun '' @ ?r = c # t" "\<not> isSpace c"
    using exportsOf_srun_head by blast
  have "interactiveCommand e cmdOpts rf
          = (exportsOf (inputs (jobInfo e)) @ ''srun '' @ ?r) @ [CHR ''&'']"
    by (simp add: interactiveCommand_def)
  also have "\<dots> = c # t @ [CHR ''&'']"
    using ct(1) by simp
  finally have eq: "interactiveCommand e cmdOpts rf = c # t @ [CHR ''&'']" .
  have "\<not> isSpace (CHR ''&'')"
    by (simp add: isSpace_def)
  with ct(2) show ?thesis
    unfolding eq by (rule TrimSpace_unchanged)
qed

text \<open>
  C5. The command \<open>runInteractiveMode\<close> hands to the transport is
  \<open><exports>srun <opts> singularity <subcommand> <extraArgs> <imageURI> <execCommand> > <redirectFile> &\<close>,
  where the extra arguments are joined by single spaces and the redirect file is the
  name \<open>UniqueTimestampedName("yorc_", "")\<close> generated in this call; the command ends in
  the redirect to that file and the ampersand. The string handed over is the assembled
  string with leading and trailing white space trimmed: the assembled string begins
  with \<open>export\<close> or \<open>srun\<close> and ends with \<open>&\<close>, so trimming leaves it as it is.
\<close>

theorem runInteractiveMode_command:
  "transportCalls (calls (fst (runInteractiveMode w cmdOpts e)))
     = transportCalls (calls e)
       @ [TrimSpace
            (exportsOf (inputs (jobInfo e)) @ ''srun '' @ cmdOpts @ '' singularity ''
             @ command (singularityInfo e) @ '' '' @ strings_Join (execArgs (jobInfo e)) '' ''
             @ '' '' @ imageURI (singularityInfo e) @ '' '' @ exec (singularityInfo e)
             @ '' > '' @ UniqueTimestampedName w ''yorc_'' [] @ '' &'')]
   \<and> transportCalls (calls (fst (runInteractiveMode w cmdOpts e)))
     = transportCalls (calls e)
       @ [exportsOf (inputs (jobInfo e)) @ ''srun '' @ cmdOpts @ '' singularity ''
          @ command (singularityInfo e) @ '' '' @ strings_Join (execArgs (jobInfo e)) '' ''
          @ '' '' @ imageURI (singularityInfo e) @ '' '' @ exec (singularityInfo e)
          @ '' > '' @ UniqueTimestampedName w ''yorc_'' [] @ '' &'']
   \<and> HasSuffix (last (transportCalls (calls (fst (runInteractiveMode w cmdOpts e)))))
        ('' > '' @ UniqueTimestampedName w ''yorc_'' [] @ '' &'')"
proof -
  let ?rf = "UniqueTimestampedName w ''yorc_'' []"
  have template: "interactiveCommand e cmdOpts ?rf
     = exportsOf (inputs (jobInfo e)) @ ''srun '' @ cmdOpts @ '' singularity ''
          @ command (singularityInfo e) @ '' '' @ strings_Join (execArgs (jobInfo e)) '' ''
          @ '' '' @ imageURI (singularityInfo e) @ '' '' @ exec (singularityInfo e)
          @ '' > '' @ ?rf @ '' &''"
    by (simp add: interactiveCommand_def)
  have sent: "transportCalls (calls (fst (runInteractiveMode w cmdOpts e)))
     = transportCalls (calls e) @ [interactiveCommand e cmdOpts ?rf]"
    by (simp add: runInteractiveMode_calls transportCalls_append)
  have parts: "interactiveCommand e cmdOpts ?rf
     = (exportsOf (inputs (jobInfo e)) @ ''srun '' @ cmdOpts @ '' singularity ''
          @ command (singularityInfo e) @ '' '' @ strings_Join (execArgs (jobInfo e)) '' ''
          @ '' '' @ imageURI (singularityInfo e) @ '' '' @ exec (singularityInfo e))
       @ ('' > '' @ ?rf @ '' &'')"
    by (simp add: interactiveCommand_def)
  have ending: "HasSuffix (interactiveCommand e cmdOpts ?rf) ('' > '' @ ?rf @ '' &'')"
    unfolding parts by (rule HasSuffix_append)
  show ?thesis
    unfolding template [symmetric]
    using sent ending TrimSpace_interactiveCommand [of e cmdOpts ?rf]
    by simp
qed

theorem runInteractiveMode_command_witness:
  "transportCalls (calls (fst (runInteractiveMode exampleCollaborators ''--mem=2G''
        (exampleExecution
           \<lparr>jobInfo := \<lparr>batchMode = False, ID = [], monitoringTimeInterval = 0,
                         inputs = [(''A'', ''1'')], outputs = [], execArgs = [''-B'', ''/scratch''],
                         opts = []\<rparr>,
            singularityInfo :=
              \<lparr>command = ''exec'', imageName = ''docker://img'', imageURI = ''docker://h/img'',
                exec = ''ls''\<rparr>\<rparr>))))
     = [''export A=1;srun --mem=2G singularity exec -B /scratch docker://h/img ls > yorc_20181105 &'']"
  using runInteractiveMode_command [THEN conjunct2, THEN conjunct1, of exampleCollaborators "''--mem=2G''"
      "exampleExecution
           \<lparr>jobInfo := \<lparr>batchMode = False, ID = [], monitoringTimeInterval = 0,
                         inputs = [(''A'', ''1'')], outputs = [], execArgs = [''-B'', ''/scratch''],
                         opts = []\<rparr>,
            singularityInfo :=
              \<lparr>command = ''exec'', imageName = ''docker://img'', imageURI = ''docker://h/img'',
                exec = ''ls''\<rparr>\<rparr>"]
  by (simp add: exampleCollaborators_def exampleExecution_def)

section \<open>The run stage\<close>

lemma batchCommand_fields:
  "inputs (jobInfo e') = inputs (jobInfo e) \<Longrightarrow> singularityInfo e' = singularityInfo e
   \<Longrightarrow> OperationRemoteBaseDir e' = OperationRemoteBaseDir e
   \<Longrightarrow> batchCommand e' cmdOpts = batchCommand e cmdOpts"
  by (simp add: batchCommand_def)

lemma interactiveCommand_fields:
  "inputs (jobInfo e') = inputs (jobInfo e) \<Longrightarrow> singularityInfo e' = singularityInfo e
   \<Longrightarrow> execArgs (jobInfo e') = execArgs (jobInfo e)
   \<Longrightarrow> interactiveCommand e' cmdOpts rf = interactiveCommand e cmdOpts rf"
  by (simp add: interactiveCommand_def)

lemma runJobCommand_batch:
  "batchMode (jobInfo e) \<Longrightarrow>
     runJobCommand w e
       = runBatchMode w (fillJobCommandOpts w e)
           (e\<lparr>OperationRemoteExecDir := OperationRemoteBaseDir e,
              jobInfo := (jobInfo e)\<lparr>outputs := parseOutputConfigFromOpts w (opts (jobInfo e))\<rparr>\<rparr>)"
  by (simp add: runJobCommand_def Let_def searchForBatchOutputs_def)

lemma runJobCommand_interactive:
  "\<not> batchMode (jobInfo e) \<Longrightarrow>
     runJobCommand w e
       = (case runInteractiveMode w (fillJobCommandOpts w e)
                 (e\<lparr>OperationRemoteExecDir := OperationRemoteBaseDir e\<rparr>) of
            (e2, Some err) \<Rightarrow> (e2, Some err)
          | (e2, None) \<Rightarrow> retrieveJobID w e2)"
  by (simp add: runJobCommand_def Let_def)

lemma transportCalls_RunCommand_calls: "transportCalls (map RunCommand_call cmds) = cmds"
  by (induction cmds) auto

lemma retrieveJobID_calls:
  "calls (fst (retrieveJobID w e))
     = calls e @ map RunCommand_call
         (fst (lookupJobID w (deploymentID e) (ImplementedInNodeTemplate (operation e))))"
  by (simp add: retrieveJobID_def Let_def split: prod.splits sum.splits)

lemma runJobCommand_calls:
  "transportCalls (calls (fst (runJobCommand w e)))
     = transportCalls (calls e) @ jobCommand w e # lookupCommands w e"
proof (cases "batchMode (jobInfo e)")
  case True
  then show ?thesis
    by (simp add: runJobCommand_batch runBatchMode_calls jobCommand_def batchCommand_def
        lookupCommands_def transportCalls_append)
next
  case False
  let ?e1 = "e\<lparr>OperationRemoteExecDir := OperationRemoteBaseDir e\<rparr>"
  have cmd: "interactiveCommand ?e1 (fillJobCommandOpts w e) (UniqueTimestampedName w ''yorc_'' [])
               = jobCommand w e"
    using False by (simp add: jobCommand_def interactiveCommand_def)
  obtain ack r where t: "RunCommand w (jobCommand w e) = (ack, r)"
    by (cases "RunCommand w (jobCommand w e)")
  show ?thesis
  proof (cases r)
    case None
    with False t cmd show ?thesis
      by (simp add: runJobCommand_interactive runInteractiveMode_result retrieveJobID_calls
          lookupCommands_def transportCalls_append transportCalls_RunCommand_calls)
  next
    case (Some msg)
    with False t cmd show ?thesis
      by (simp add: runJobCommand_interactive runInteractiveMode_result lookupCommands_def
          transportCalls_append)
  qed
qed

lemma buildImageURI_transportCalls:
  "transportCalls (calls (fst (buildImageURI w p e))) = transportCalls (calls e)"
  by (auto simp: buildImageURI_def Let_def record_call_def set_imageURI_def
      transportCalls_append split: sum.splits)

lemma buildSingularityInfo_transportCalls:
  "transportCalls (calls (fst (buildSingularityInfo w e))) = transportCalls (calls e)"
  by (simp add: buildSingularityInfo_def Let_def resolveContainerImage_def
      buildImageURI_transportCalls set_imageURI_def)

lemma buildJobInfo_calls: "calls (fst (buildJobInfo w e)) = calls e"
  by (simp add: buildJobInfo_def split: sum.splits)

lemma builtExecution_transportCalls:
  "transportCalls (calls (builtExecution w e)) = transportCalls (calls e)"
  by (simp add: builtExecution_def buildSingularityInfo_transportCalls buildJobInfo_calls)

lemma executeAsync_run_stage:
  "reachesRunStage w e \<Longrightarrow>
     executeAsync w e
       = (case runJobCommand w (builtExecution w e) of
            (e3, Some err) \<Rightarrow> (e3, Inl (Wrap err ''failed to run command''))
          | (e3, None) \<Rightarrow>
              (e3, Inr (buildJobMonitoringAction e3, monitoringTimeInterval (jobInfo e3))))"
  by (cases "buildJobInfo w e"; cases "buildSingularityInfo w (fst (buildJobInfo w e))")
     (simp add: reachesRunStage_def builtExecution_def executeAsync_def)

lemma executeAsync_early:
  "\<not> reachesRunStage w e \<Longrightarrow>
     transportCalls (calls (fst (executeAsync w e))) = transportCalls (calls e)"
  using buildJobInfo_calls [of w e]
    buildSingularityInfo_transportCalls [of w "fst (buildJobInfo w e)"]
  by (cases "buildJobInfo w e"; cases "buildSingularityInfo w (fst (buildJobInfo w e))")
     (auto simp: reachesRunStage_def executeAsync_def split: option.splits)

lemma executeAsync_state_run_stage:
  "reachesRunStage w e \<Longrightarrow>
     fst (executeAsync w e) = fst (runJobCommand w (builtExecution w e))"
  by (simp add: executeAsync_run_stage split: prod.splits option.splits)

lemma executeAsync_transportCalls:
  "transportCalls (calls (fst (executeAsync w e)))
     = transportCalls (calls e)
       @ (if reachesRunStage w e
          then jobCommand w (builtExecution w e) # lookupCommands w (builtExecution w e)
          else [])"
  by (simp add: executeAsync_early executeAsync_state_run_stage runJobCommand_calls
      builtExecution_transportCalls)

section \<open>Remote command executions per dispatch\<close>




section \<open>The scheduler's acknowledgment\<close>

lemma runBatchMode_success:
  "RunCommand w (batchCommand e cmdOpts) = (output, None) \<Longrightarrow>
     runBatchMode w cmdOpts e
       = ((record_call (RunCommand_call (batchCommand e cmdOpts)) e)
            \<lparr>jobInfo := (jobInfo e)
               \<lparr>ID := fst (parseJobIDFromBatchOutput (Trim output [CHR 0x0A]))\<rparr>\<rparr>,
          snd (parseJobIDFromBatchOutput (Trim output [CHR 0x0A])))"
  by (simp add: runBatchMode_def Let_def record_call_def split: prod.splits)

text \<open>
  C6. In batch mode, when the transport returns the acknowledgment without error, the
  job identifier stored in \<open>e.jobInfo.ID\<close> is the last white space delimited token of
  the ack with its leading and trailing newlines trimmed; \<open>Submitted batch job 4821\<close>
  gives \<open>4821\<close>. When the trimmed ack has no token, \<open>runBatchMode\<close> fails with
  \<open>JobIDParseFailure\<close> after the command was sent, and the dispatch fails with that error
  as its cause, with the one command sent and no second one.
\<close>

theorem runBatchMode_job_identifier:
  "parseJobIDFromBatchOutput ''Submitted batch job 4821'' = (''4821'', None)
   \<and> (RunCommand w (batchCommand e cmdOpts) = (ack, None)
        \<and> Fields (Trim ack [CHR 0x0A]) \<noteq> []
      \<longrightarrow> snd (runBatchMode w cmdOpts e) = None
          \<and> ID (jobInfo (fst (runBatchMode w cmdOpts e))) = last (Fields (Trim ack [CHR 0x0A])))
   \<and> (RunCommand w (batchCommand e cmdOpts) = (ack, None)
        \<and> Fields (Trim ack [CHR 0x0A]) = []
      \<longrightarrow> snd (runBatchMode w cmdOpts e) = Some (JobIDParseFailure (Trim ack [CHR 0x0A]))
          \<and> transportCalls (calls (fst (runBatchMode w cmdOpts e)))
              = transportCalls (calls e) @ [batchCommand e cmdOpts])
   \<and> (reachesRunStage w req \<and> batchMode (jobInfo (builtExecution w req))
        \<and> RunCommand w (jobCommand w (builtExecution w req)) = (ack, None)
        \<and> Fields (Trim ack [CHR 0x0A]) = []
      \<longrightarrow> snd (executeAsync w req)
            = Inl (Wrap (JobIDParseFailure (Trim ack [CHR 0x0A])) ''failed to run command'')
          \<and> failsWith isJobIDParseFailure (snd (executeAsync w req))
          \<and> transportCalls (calls (fst (executeAsync w req)))
              = transportCalls (calls req) @ [jobCommand w (builtExecution w req)])"
proof -
  have example: "parseJobIDFromBatchOutput ''Submitted batch job 4821'' = (''4821'', None)"
    by code_simp
  have found: "snd (runBatchMode w cmdOpts e) = None
          \<and> ID (jobInfo (fst (runBatchMode w cmdOpts e))) = last (Fields (Trim ack [CHR 0x0A]))"
    if "RunCommand w (batchCommand e cmdOpts) = (ack, None)"
      and "Fields (Trim ack [CHR 0x0A]) \<noteq> []"
    using that
    by (simp add: runBatchMode_success parseJobIDFromBatchOutput_def split: list.splits)
  have missing: "snd (runBatchMode w cmdOpts e) = Some (JobIDParseFailure (Trim ack [CHR 0x0A]))
          \<and> transportCalls (calls (fst (runBatchMode w cmdOpts e)))
              = transportCalls (calls e) @ [batchCommand e cmdOpts]"
    if "RunCommand w (batchCommand e cmdOpts) = (ack, None)"
      and "Fields (Trim ack [CHR 0x0A]) = []"
    using that
    by (simp add: runBatchMode_success parseJobIDFromBatchOutput_def record_call_def
        transportCalls_append)
  have dispatch: "snd (executeAsync w req)
            = Inl (Wrap (JobIDParseFailure (Trim ack [CHR 0x0A])) ''failed to run command'')
          \<and> failsWith isJobIDParseFailure (snd (executeAsync w req))
          \<and> transportCalls (calls (fst (executeAsync w req)))
              = transportCalls (calls req) @ [jobCommand w (builtExecution w req)]"
    if r: "reachesRunStage w req" and b: "batchMode (jobInfo (builtExecution w req))"
      and t: "RunCommand w (jobCommand w (builtExecution w req)) = (ack, None)"
      and f: "Fields (Trim ack [CHR 0x0A]) = []"
  proof -
    let ?e2 = "builtExecution w req"
    let ?e3 = "?e2\<lparr>OperationRemoteExecDir := OperationRemoteBaseDir ?e2,
              jobInfo := (jobInfo ?e2)\<lparr>outputs := parseOutputConfigFromOpts w (opts (jobInfo ?e2))\<rparr>\<rparr>"
    have cmd: "batchCommand ?e3 (fillJobCommandOpts w ?e2) = jobCommand w ?e2"
      using b by (simp add: jobCommand_def batchCommand_def)
    have "snd (runBatchMode w (fillJobCommandOpts w ?e2) ?e3)
            = Some (JobIDParseFailure (Trim ack [CHR 0x0A]))"
      using t f by (simp add: runBatchMode_success cmd parseJobIDFromBatchOutput_def)
    then have "snd (runJobCommand w ?e2) = Some (JobIDParseFailure (Trim ack [CHR 0x0A]))"
      using b by (simp add: runJobCommand_batch)
    then have "snd (executeAsync w req)
            = Inl (Wrap (JobIDParseFailure (Trim ack [CHR 0x0A])) ''failed to run command'')"
      by (cases "runJobCommand w ?e2") (simp add: executeAsync_run_stage [OF r])
    then show ?thesis
      using r b by (simp add: failsWith_def executeAsync_transportCalls lookupCommands_def)
  qed
  from example found missing dispatch show ?thesis
    by blast
qed

theorem runBatchMode_job_identifier_witness:
  "RunCommand exampleCollaborators (batchCommand (exampleWithImage ''docker://img'') [])
     = (''Submitted batch job 4821'' @ [CHR 0x0A], None)
   \<and> Fields (Trim (''Submitted batch job 4821'' @ [CHR 0x0A]) [CHR 0x0A]) \<noteq> []
   \<and> ID (jobInfo (fst (runBatchMode exampleCollaborators [] (exampleWithImage ''docker://img''))))
       = ''4821''
   \<and> RunCommand exampleBlankAck (batchCommand (exampleWithImage ''docker://img'') [])
       = ('' '' @ [CHR 0x0A], None)
   \<and> Fields (Trim ('' '' @ [CHR 0x0A]) [CHR 0x0A]) = []
   \<and> snd (runBatchMode exampleBlankAck [] (exampleWithImage ''docker://img''))
       = Some (JobIDParseFailure '' '')
   \<and> reachesRunStage exampleBlankAck exampleExecution
   \<and> batchMode (jobInfo (builtExecution exampleBlankAck exampleExecution))
   \<and> failsWith isJobIDParseFailure (snd (executeAsync exampleBlankAck exampleExecution))
   \<and> length (transportCalls (calls (fst (executeAsync exampleBlankAck exampleExecution)))) = 1"
proof -
  have a1: "RunCommand exampleCollaborators (batchCommand (exampleWithImage ''docker://img'') [])
     = (''Submitted batch job 4821'' @ [CHR 0x0A], None)"
    by (simp add: exampleCollaborators_def)
  have a2: "Fields (Trim (''Submitted batch job 4821'' @ [CHR 0x0A]) [CHR 0x0A])
     = [''Submitted'', ''batch'', ''job'', ''4821'']"
    by code_simp
  have b1: "RunCommand exampleBlankAck c = ('' '' @ [CHR 0x0A], None)" for c
    by (simp add: exampleBlankAck_def exampleCollaborators_def)
  have b2: "Trim ('' '' @ [CHR 0x0A]) [CHR 0x0A] = '' ''"
    by code_simp
  have b3: "Fields '' '' = []"
    by code_simp
  have r: "reachesRunStage exampleBlankAck exampleExecution"
    by code_simp
  have m: "batchMode (jobInfo (builtExecution exampleBlankAck exampleExecution))"
    by code_simp
  have e: "calls exampleExecution = []"
    by (simp add: exampleExecution_def)
  show ?thesis
    using a1 a2 b1 b2 b3 r m e
      runBatchMode_job_identifier [where w = exampleCollaborators
        and e = "exampleWithImage ''docker://img''" and cmdOpts = "[]"
        and ack = "''Submitted batch job 4821'' @ [CHR 0x0A]" and req = exampleExecution]
      runBatchMode_job_identifier [where w = exampleBlankAck
        and e = "exampleWithImage ''docker://img''" and cmdOpts = "[]"
        and ack = "'' '' @ [CHR 0x0A]" and req = exampleExecution]
    by (simp add: failsWith_def)
qed

section \<open>The outputs of an interactive job\<close>

text \<open>
  C10. \<open>runInteractiveMode\<close> assigns to \<open>e.jobInfo.outputs\<close> the list of the one
  generated redirect file before it calls the transport, and nothing undoes the
  assignment: whatever the transport returns, the execution it leaves has exactly this
  list as outputs. When the transport returns an error, the method returns the
  execution with the outputs assigned and the call recorded, and the error wrapped
  with the transport's output; an interactive dispatch that fails this way ends with
  the redirect file as the outputs of its job information.
\<close>

theorem runInteractiveMode_outputs_kept:
  "outputs (jobInfo (fst (runInteractiveMode w cmdOpts e)))
     = [UniqueTimestampedName w ''yorc_'' []]
   \<and> (RunCommand w (interactiveCommand e cmdOpts (UniqueTimestampedName w ''yorc_'' []))
         = (ack, Some msg)
      \<longrightarrow> runInteractiveMode w cmdOpts e
            = (e\<lparr>jobInfo := (jobInfo e)\<lparr>outputs := [UniqueTimestampedName w ''yorc_'' []]\<rparr>,
                 calls := calls e @ [RunCommand_call
                    (interactiveCommand e cmdOpts (UniqueTimestampedName w ''yorc_'' []))]\<rparr>,
               Some (Wrap (CommandExecutionFailure msg) ack)))
   \<and> (reachesRunStage w req \<and> \<not> batchMode (jobInfo (builtExecution w req))
        \<and> RunCommand w (jobCommand w (builtExecution w req)) = (ack, Some msg)
      \<longrightarrow> snd (executeAsync w req)
            = Inl (Wrap (Wrap (CommandExecutionFailure msg) ack) ''failed to run command'')
          \<and> failsWith isCommandExecutionFailure (snd (executeAsync w req))
          \<and> outputs (jobInfo (fst (executeAsync w req)))
              = [UniqueTimestampedName w ''yorc_'' []])"
proof -
  have dispatch: "snd (executeAsync w req)
            = Inl (Wrap (Wrap (CommandExecutionFailure msg) ack) ''failed to run command'')
          \<and> failsWith isCommandExecutionFailure (snd (executeAsync w req))
          \<and> outputs (jobInfo (fst (executeAsync w req)))
              = [UniqueTimestampedName w ''yorc_'' []]"
    if r: "reachesRunStage w req" and i: "\<not> batchMode (jobInfo (builtExecution w req))"
      and t: "RunCommand w (jobCommand w (builtExecution w req)) = (ack, Some msg)"
  proof -
    let ?e2 = "builtExecution w req"
    let ?e3 = "?e2\<lparr>OperationRemoteExecDir := OperationRemoteBaseDir ?e2\<rparr>"
    have cmd: "interactiveCommand ?e3 (fillJobCommandOpts w ?e2)
                 (UniqueTimestampedName w ''yorc_'' []) = jobCommand w ?e2"
      using i by (simp add: jobCommand_def interactiveCommand_def)
    have "runJobCommand w ?e2
            = (?e3\<lparr>jobInfo := (jobInfo ?e3)\<lparr>outputs := [UniqueTimestampedName w ''yorc_'' []]\<rparr>,
                 calls := calls ?e3 @ [RunCommand_call (jobCommand w ?e2)]\<rparr>,
               Some (Wrap (CommandExecutionFailure msg) ack))"
      using i t by (simp add: runJobCommand_interactive runInteractiveMode_result cmd)
    then show ?thesis
      by (simp add: executeAsync_run_stage [OF r] failsWith_def)
  qed
  have direct: "outputs (jobInfo (fst (runInteractiveMode w cmdOpts e)))
     = [UniqueTimestampedName w ''yorc_'' []]"
    by (simp add: runInteractiveMode_result)
  have failing: "runInteractiveMode w cmdOpts e
            = (e\<lparr>jobInfo := (jobInfo e)\<lparr>outputs := [UniqueTimestampedName w ''yorc_'' []]\<rparr>,
                 calls := calls e @ [RunCommand_call
                    (interactiveCommand e cmdOpts (UniqueTimestampedName w ''yorc_'' []))]\<rparr>,
               Some (Wrap (CommandExecutionFailure msg) ack))"
    if "RunCommand w (interactiveCommand e cmdOpts (UniqueTimestampedName w ''yorc_'' []))
         = (ack, Some msg)"
    using that by (simp add: runInteractiveMode_result)
  from direct failing dispatch show ?thesis
    by blast
qed

theorem runInteractiveMode_outputs_kept_witness:
  "RunCommand exampleInteractive
      (interactiveCommand exampleExecution [] (UniqueTimestampedName exampleInteractive ''yorc_'' []))
     = (''srun: error: Unable to allocate resources'', Some ''exit 1'')
   \<and> outputs (jobInfo (fst (runInteractiveMode exampleInteractive [] exampleExecution)))
       = [''yorc_20181105'']
   \<and> snd (runInteractiveMode exampleInteractive [] exampleExecution)
       = Some (Wrap (CommandExecutionFailure ''exit 1'')
                 ''srun: error: Unable to allocate resources'')
   \<and> reachesRunStage exampleInteractive exampleExecution
   \<and> \<not> batchMode (jobInfo (builtExecution exampleInteractive exampleExecution))
   \<and> failsWith isCommandExecutionFailure (snd (executeAsync exampleInteractive exampleExecution))
   \<and> outputs (jobInfo (fst (executeAsync exampleInteractive exampleExecution)))
       = [''yorc_20181105'']"
proof -
  have t: "RunCommand exampleInteractive c
             = (''srun: error: Unable to allocate resources'', Some ''exit 1'')" for c
    by (simp add: exampleInteractive_def exampleCollaborators_def)
  have n: "UniqueTimestampedName exampleInteractive ''yorc_'' [] = ''yorc_20181105''"
    by (simp add: exampleInteractive_def exampleCollaborators_def)
  have r: "reachesRunStage exampleInteractive exampleExecution"
    by code_simp
  have m: "\<not> batchMode (jobInfo (builtExecution exampleInteractive exampleExecution))"
    by code_simp
  show ?thesis
    using t n r m
      runInteractiveMode_outputs_kept [where w = exampleInteractive and e = exampleExecution
        and cmdOpts = "[]" and ack = "''srun: error: Unable to allocate resources''"
        and msg = "''exit 1''" and req = exampleExecution]
    by (simp add: failsWith_def)
qed

end
